theory Spec2Isabelle
  imports Complex_Main
begin

section \<open>Python values and operations used by \<open>server.py\<close>\<close>

text \<open>
  The parameter-space engine of \<open>window_display_mcp/server.py\<close> (Phase 2.6 and 2.7) is
  embedded here. Python \<open>int\<close> is \<open>int\<close>, \<open>str\<close> is \<open>string\<close>, a \<open>dict\<close> is a map (an
  association list where iteration order matters). A tool's JSON text is modelled by the
  dictionary handed to \<open>json.dumps\<close>; a returned \<open>{"error": ...}\<close> dictionary and a raised
  exception are both \<open>Inl\<close> of an error value.

  Python \<open>float\<close> has two readings in this theory. The waveform generator, the
  interpolation loops, the sequence tool and the vocabulary mapper \<open>_float\<close> are embedded
  over the type \<open>pyfloat\<close> of the section on floating-point numbers: finite values,
  the two infinities and NaN, every operation rounded, with the exceptions Python raises.
  Keyframe sampling and the distance calculator on registered states are embedded over
  the real numbers, every operation exact: what is proved of them (which indices are
  sampled, symmetry on the registry) does not turn on rounding. Dictionary values that
  are not numbers are outside both readings.
\<close>

datatype error =
    UnknownState string
  | SequenceModeRequiresPreset
  | NoStateOrPreset
  | KeyError "string option"
  | IndexError
  | ZeroDivisionError
  | OverflowError
  | ValueError

text \<open>Sequencing of fallible steps: the first error ends the computation.\<close>

fun bind_result :: "error + 'a \<Rightarrow> ('a \<Rightarrow> error + 'b) \<Rightarrow> error + 'b" where
  "bind_result (Inl e) f = Inl e"
| "bind_result (Inr x) f = f x"

text \<open>\<open>d[k]\<close> on a dictionary: a missing key raises \<open>KeyError\<close>.\<close>

definition getitem :: "(string \<rightharpoonup> 'v) \<Rightarrow> string \<Rightarrow> error + 'v" where
  "getitem d k = (case d k of None \<Rightarrow> Inl (KeyError (Some k)) | Some v \<Rightarrow> Inr v)"

text \<open>\<open>d.get(k, default)\<close>.\<close>

definition get_default :: "(string \<rightharpoonup> 'v) \<Rightarrow> string \<Rightarrow> 'v \<Rightarrow> 'v" where
  "get_default d k dflt = (case d k of None \<Rightarrow> dflt | Some v \<Rightarrow> v)"

text \<open>\<open>xs[i]\<close> on a list: negative indices count from the end, out of range raises.\<close>

definition list_getitem :: "'a list \<Rightarrow> int \<Rightarrow> error + 'a" where
  "list_getitem xs i =
     (if 0 \<le> i \<and> i < int (length xs) then Inr (xs ! nat i)
      else if - int (length xs) \<le> i \<and> i < 0 then Inr (xs ! nat (int (length xs) + i))
      else Inl IndexError)"

text \<open>Slices \<open>xs[k:]\<close> and \<open>xs[:k]\<close>: a negative bound counts from the end, and bounds
  are clamped to the list.\<close>

definition slice_bound :: "'a list \<Rightarrow> int \<Rightarrow> nat" where
  "slice_bound xs k =
     (let n = int (length xs) in nat (if k < 0 then max 0 (n + k) else min k n))"

definition slice_from :: "'a list \<Rightarrow> int \<Rightarrow> 'a list" where
  "slice_from xs k = drop (slice_bound xs k) xs"

definition slice_to :: "'a list \<Rightarrow> int \<Rightarrow> 'a list" where
  "slice_to xs k = take (slice_bound xs k) xs"

text \<open>\<open>range(n)\<close>: the integers \<open>0, ..., n - 1\<close>, empty when \<open>n \<le> 0\<close>.\<close>

definition py_range :: "int \<Rightarrow> int list" where
  "py_range n = [0..n - 1]"

text \<open>\<open>round(x, n)\<close>: to \<open>n\<close> decimal digits, a tie going to the even neighbour.\<close>

definition round_half_even :: "real \<Rightarrow> int" where
  "round_half_even x =
     (let f = \<lfloor>x\<rfloor>; d = x - of_int f
      in if d < 1 / 2 then f else if 1 / 2 < d then f + 1 else if even f then f else f + 1)"

definition py_round :: "real \<Rightarrow> nat \<Rightarrow> real" where
  "py_round x n = of_int (round_half_even (x * 10 ^ n)) / 10 ^ n"

text \<open>\<open>sep.join(parts)\<close>.\<close>

fun join :: "string \<Rightarrow> string list \<Rightarrow> string" where
  "join sep [] = []"
| "join sep [x] = x"
| "join sep (x # y # ys) = x @ sep @ join sep (y # ys)"

section \<open>Floating-point numbers\<close>

text \<open>
  A Python \<open>float\<close> is an IEEE 754 double: a finite number, an infinity or NaN. A finite
  double is modelled by the real number it denotes (the sign of zero is not modelled).
\<close>

datatype pyfloat = Fin real | PInf | NInf | NaN

text \<open>
  The arithmetic of the platform is a parameter of every function that computes with
  floats: \<open>nearest\<close> maps a real number to the double nearest to it, as if the exponent
  range had no upper end, and \<open>sine\<close> is the function behind \<open>math.sin\<close>. A result
  of \<open>+\<close>, \<open>-\<close>, \<open>*\<close>, \<open>/\<close>, \<open>**\<close> and \<open>math.sqrt\<close> on finite operands is the exact result
  rounded by \<open>nearest\<close>, and it overflows when the rounded value reaches \<open>2 ^ 1024\<close>.
  Nothing is assumed of \<open>nearest\<close> and \<open>sine\<close> here; a theorem that needs a property of them
  says so.
\<close>

record arith =
  nearest :: "real \<Rightarrow> real"
  sine :: "real \<Rightarrow> real"

text \<open>A rounded result: an infinity on overflow.\<close>

definition fl :: "arith \<Rightarrow> real \<Rightarrow> pyfloat" where
  "fl ar x =
     (let y = nearest ar x
      in if 2 ^ 1024 \<le> y then PInf else if y \<le> - (2 ^ 1024) then NInf else Fin y)"

text \<open>A decimal literal of the source, such as \<open>0.2\<close> or \<open>0.35\<close>, denotes the double nearest
  to it. The literals \<open>0.0\<close>, \<open>0.5\<close>, \<open>1.0\<close> and small integers are doubles themselves, and
  are written \<open>Fin 0\<close>, \<open>Fin (1 / 2)\<close>, \<open>Fin 1\<close> and so on.\<close>

definition float_literal :: "arith \<Rightarrow> real \<Rightarrow> pyfloat" where
  "float_literal ar x = Fin (nearest ar x)"

definition math_pi :: "arith \<Rightarrow> pyfloat" where
  "math_pi ar = float_literal ar pi"

definition signed_inf :: "bool \<Rightarrow> pyfloat" where
  "signed_inf positive = (if positive then PInf else NInf)"

text \<open>\<open>x + y\<close>, \<open>x - y\<close> and \<open>x * y\<close> on floats never raise.\<close>

fun float_add :: "arith \<Rightarrow> pyfloat \<Rightarrow> pyfloat \<Rightarrow> pyfloat" where
  "float_add ar (Fin x) (Fin y) = fl ar (x + y)"
| "float_add ar NaN y = NaN"
| "float_add ar x NaN = NaN"
| "float_add ar PInf NInf = NaN"
| "float_add ar NInf PInf = NaN"
| "float_add ar PInf y = PInf"
| "float_add ar NInf y = NInf"
| "float_add ar (Fin x) y = y"

fun float_sub :: "arith \<Rightarrow> pyfloat \<Rightarrow> pyfloat \<Rightarrow> pyfloat" where
  "float_sub ar (Fin x) (Fin y) = fl ar (x - y)"
| "float_sub ar NaN y = NaN"
| "float_sub ar x NaN = NaN"
| "float_sub ar PInf PInf = NaN"
| "float_sub ar NInf NInf = NaN"
| "float_sub ar PInf y = PInf"
| "float_sub ar NInf y = NInf"
| "float_sub ar (Fin x) PInf = NInf"
| "float_sub ar (Fin x) NInf = PInf"

fun float_mul :: "arith \<Rightarrow> pyfloat \<Rightarrow> pyfloat \<Rightarrow> pyfloat" where
  "float_mul ar (Fin x) (Fin y) = fl ar (x * y)"
| "float_mul ar NaN y = NaN"
| "float_mul ar x NaN = NaN"
| "float_mul ar (Fin x) PInf = (if x = 0 then NaN else signed_inf (0 < x))"
| "float_mul ar (Fin x) NInf = (if x = 0 then NaN else signed_inf (x < 0))"
| "float_mul ar PInf (Fin y) = (if y = 0 then NaN else signed_inf (0 < y))"
| "float_mul ar NInf (Fin y) = (if y = 0 then NaN else signed_inf (y < 0))"
| "float_mul ar PInf PInf = PInf"
| "float_mul ar NInf NInf = PInf"
| "float_mul ar PInf NInf = NInf"
| "float_mul ar NInf PInf = NInf"

text \<open>\<open>x / y\<close>: a zero divisor raises \<open>ZeroDivisionError\<close>, whatever the dividend.\<close>

fun float_truediv :: "arith \<Rightarrow> pyfloat \<Rightarrow> pyfloat \<Rightarrow> error + pyfloat" where
  "float_truediv ar x (Fin y) =
     (if y = 0 then Inl ZeroDivisionError
      else (case x of
              Fin a \<Rightarrow> Inr (fl ar (a / y))
            | PInf \<Rightarrow> Inr (signed_inf (0 < y))
            | NInf \<Rightarrow> Inr (signed_inf (y < 0))
            | NaN \<Rightarrow> Inr NaN))"
| "float_truediv ar x NaN = Inr NaN"
| "float_truediv ar NaN y = Inr NaN"
| "float_truediv ar (Fin a) y = Inr (Fin 0)"
| "float_truediv ar x y = Inr NaN"

text \<open>\<open>x ** 2\<close>: a finite square too large for a double raises \<open>OverflowError\<close>.\<close>

fun float_pow2 :: "arith \<Rightarrow> pyfloat \<Rightarrow> error + pyfloat" where
  "float_pow2 ar (Fin x) =
     (case fl ar (x * x) of Fin y \<Rightarrow> Inr (Fin y) | _ \<Rightarrow> Inl OverflowError)"
| "float_pow2 ar NaN = Inr NaN"
| "float_pow2 ar x = Inr PInf"

text \<open>\<open>math.sqrt(x)\<close> and \<open>math.sin(x)\<close>: outside the domain they raise \<open>ValueError\<close>.\<close>

fun math_sqrt :: "arith \<Rightarrow> pyfloat \<Rightarrow> error + pyfloat" where
  "math_sqrt ar (Fin x) = (if x < 0 then Inl ValueError else Inr (fl ar (sqrt x)))"
| "math_sqrt ar PInf = Inr PInf"
| "math_sqrt ar NInf = Inl ValueError"
| "math_sqrt ar NaN = Inr NaN"

fun math_sin :: "arith \<Rightarrow> pyfloat \<Rightarrow> error + pyfloat" where
  "math_sin ar (Fin x) = Inr (Fin (sine ar x))"
| "math_sin ar NaN = Inr NaN"
| "math_sin ar x = Inl ValueError"

text \<open>Truncation towards zero.\<close>

definition truncation :: "real \<Rightarrow> int" where
  "truncation x = (if 0 \<le> x then \<lfloor>x\<rfloor> else \<lceil>x\<rceil>)"

text \<open>\<open>x % 1.0\<close>: the C remainder \<open>fmod(x, 1.0)\<close> is exact and has the sign of \<open>x\<close>; a
  negative remainder is moved up by adding \<open>1.0\<close>, which rounds. The remainder of an
  infinity is NaN.\<close>

fun float_mod1 :: "arith \<Rightarrow> pyfloat \<Rightarrow> pyfloat" where
  "float_mod1 ar (Fin x) =
     (let m = x - of_int (truncation x) in if m < 0 then fl ar (m + 1) else Fin m)"
| "float_mod1 ar x = NaN"

text \<open>\<open>x < y\<close>: false whenever an operand is NaN.\<close>

fun float_lt :: "pyfloat \<Rightarrow> pyfloat \<Rightarrow> bool" where
  "float_lt (Fin x) (Fin y) = (x < y)"
| "float_lt NaN y = False"
| "float_lt x NaN = False"
| "float_lt x NInf = False"
| "float_lt NInf y = True"
| "float_lt PInf y = False"
| "float_lt (Fin x) PInf = True"

text \<open>\<open>round(x, n)\<close> on a float: the decimal rounding of the number the double denotes,
  a tie going to the even neighbour, read back as a double; an infinity and NaN are
  returned as they are.\<close>

fun float_round :: "arith \<Rightarrow> pyfloat \<Rightarrow> nat \<Rightarrow> pyfloat" where
  "float_round ar (Fin x) n = fl ar (py_round x n)"
| "float_round ar x n = x"

text \<open>The conversion of an \<open>int\<close> operand in mixed arithmetic: an integer too large for
  a double raises \<open>OverflowError\<close>.\<close>

definition float_of_int :: "arith \<Rightarrow> int \<Rightarrow> error + pyfloat" where
  "float_of_int ar n =
     (case fl ar (of_int n) of Fin y \<Rightarrow> Inr (Fin y) | _ \<Rightarrow> Inl OverflowError)"

text \<open>\<open>int(x)\<close> on a float truncates towards zero; an infinity raises \<open>OverflowError\<close>
  and NaN raises \<open>ValueError\<close>.\<close>

fun py_int :: "pyfloat \<Rightarrow> error + int" where
  "py_int (Fin x) = Inr (truncation x)"
| "py_int NaN = Inl ValueError"
| "py_int x = Inl OverflowError"

text \<open>An argument annotated \<open>float\<close> that callers also pass as an \<open>int\<close>.\<close>

datatype number = IntNum int | FloatNum pyfloat

fun to_float :: "arith \<Rightarrow> number \<Rightarrow> error + pyfloat" where
  "to_float ar (IntNum n) = float_of_int ar n"
| "to_float ar (FloatNum x) = Inr x"

text \<open>
  Properties of the platform's arithmetic that some theorems assume: rounding is monotone
  and leaves the integers up to \<open>2 ^ 53\<close> and the number \<open>1 / 2\<close> as they are, and the sine
  stays between \<open>-1\<close> and \<open>1\<close>. Rounding to the nearest double has these properties.
\<close>

definition rounding :: "arith \<Rightarrow> bool" where
  "rounding ar \<longleftrightarrow>
     (\<forall>x y. x \<le> y \<longrightarrow> nearest ar x \<le> nearest ar y) \<and>
     (\<forall>n :: int. \<bar>n\<bar> \<le> 2 ^ 53 \<longrightarrow> nearest ar (of_int n) = of_int n) \<and>
     nearest ar (1 / 2) = 1 / 2"

definition bounded_sine :: "arith \<Rightarrow> bool" where
  "bounded_sine ar \<longleftrightarrow> (\<forall>x. - 1 \<le> sine ar x \<and> sine ar x \<le> 1)"

text \<open>The arithmetic in which no operation rounds. It has the properties above, and it
  agrees with the doubles wherever every intermediate result is a double.\<close>

definition exact_arith :: arith where
  "exact_arith = \<lparr>nearest = (\<lambda>x. x), sine = sin\<rparr>"

type_synonym fcoords = "string \<rightharpoonup> pyfloat"

text \<open>A coordinate dictionary of the source, written with decimal literals, as the
  dictionary of doubles it denotes.\<close>

definition float_coords :: "arith \<Rightarrow> (string \<rightharpoonup> real) \<Rightarrow> fcoords" where
  "float_coords ar c = (\<lambda>p. map_option (float_literal ar) (c p))"

section \<open>Registries\<close>

type_synonym coords = "string \<rightharpoonup> real"

definition DISPLAY_PARAMETER_NAMES :: "string list" where
  "DISPLAY_PARAMETER_NAMES =
     [''compositional_tension'', ''depth_complexity'', ''lighting_drama'',
      ''viewing_intimacy'', ''negative_space_ratio'']"

text \<open>The canonical display states, in the order of the dictionary literal.\<close>

definition DISPLAY_STATE_COORDINATES :: "(string \<times> coords) list" where
  "DISPLAY_STATE_COORDINATES =
     [(''luxury_isolation'',
         [''compositional_tension'' \<mapsto> 0.10, ''depth_complexity'' \<mapsto> 0.40,
          ''lighting_drama'' \<mapsto> 0.35, ''viewing_intimacy'' \<mapsto> 0.85,
          ''negative_space_ratio'' \<mapsto> 0.90]),
      (''theatrical_drama'',
         [''compositional_tension'' \<mapsto> 0.55, ''depth_complexity'' \<mapsto> 0.85,
          ''lighting_drama'' \<mapsto> 0.90, ''viewing_intimacy'' \<mapsto> 0.50,
          ''negative_space_ratio'' \<mapsto> 0.40]),
      (''abundance_wall'',
         [''compositional_tension'' \<mapsto> 0.95, ''depth_complexity'' \<mapsto> 0.10,
          ''lighting_drama'' \<mapsto> 0.15, ''viewing_intimacy'' \<mapsto> 0.20,
          ''negative_space_ratio'' \<mapsto> 0.10]),
      (''editorial_minimal'',
         [''compositional_tension'' \<mapsto> 0.15, ''depth_complexity'' \<mapsto> 0.15,
          ''lighting_drama'' \<mapsto> 0.50, ''viewing_intimacy'' \<mapsto> 0.80,
          ''negative_space_ratio'' \<mapsto> 0.85]),
      (''immersive_spectacle'',
         [''compositional_tension'' \<mapsto> 0.75, ''depth_complexity'' \<mapsto> 0.95,
          ''lighting_drama'' \<mapsto> 0.95, ''viewing_intimacy'' \<mapsto> 0.45,
          ''negative_space_ratio'' \<mapsto> 0.25]),
      (''curated_collection'',
         [''compositional_tension'' \<mapsto> 0.45, ''depth_complexity'' \<mapsto> 0.60,
          ''lighting_drama'' \<mapsto> 0.35, ''viewing_intimacy'' \<mapsto> 0.55,
          ''negative_space_ratio'' \<mapsto> 0.55]),
      (''narrative_journey'',
         [''compositional_tension'' \<mapsto> 0.60, ''depth_complexity'' \<mapsto> 0.70,
          ''lighting_drama'' \<mapsto> 0.65, ''viewing_intimacy'' \<mapsto> 0.50,
          ''negative_space_ratio'' \<mapsto> 0.35])]"

section \<open>Waveform generator\<close>

text \<open>
  The body of the loop of \<open>_generate_oscillation\<close>: the value appended at step \<open>i\<close>. The
  phase \<open>t = 2 * math.pi * num_cycles * i / num_steps\<close> is computed from left to right for
  every pattern, also an unrecognized one; the integer operands \<open>num_cycles\<close> (when it is
  an \<open>int\<close>), \<open>i\<close> and \<open>num_steps\<close> are converted to floats on the way.
\<close>

definition oscillation_value :: "arith \<Rightarrow> int \<Rightarrow> number \<Rightarrow> string \<Rightarrow> int \<Rightarrow> error + pyfloat" where
  "oscillation_value ar num_steps num_cycles pattern i =
     bind_result (to_float ar num_cycles) (\<lambda>cycles.
     bind_result (float_of_int ar i) (\<lambda>step.
     bind_result (float_of_int ar num_steps) (\<lambda>steps.
     bind_result
       (float_truediv ar
          (float_mul ar (float_mul ar (float_mul ar (Fin 2) (math_pi ar)) cycles) step) steps)
       (\<lambda>t.
         if pattern = ''sinusoidal'' then
           bind_result (math_sin ar t) (\<lambda>s.
             Inr (float_mul ar (Fin (1 / 2)) (float_add ar (Fin 1) s)))
         else if pattern = ''triangular'' then
           bind_result (float_truediv ar t (float_mul ar (Fin 2) (math_pi ar))) (\<lambda>turns.
             let t_norm = float_mod1 ar turns
             in Inr (if float_lt t_norm (Fin (1 / 2)) then float_mul ar (Fin 2) t_norm
                     else float_mul ar (Fin 2) (float_sub ar (Fin 1) t_norm)))
         else if pattern = ''square'' then
           bind_result (float_truediv ar t (float_mul ar (Fin 2) (math_pi ar))) (\<lambda>turns.
             let t_norm = float_mod1 ar turns
             in Inr (if float_lt t_norm (Fin (1 / 2)) then Fin 0 else Fin 1))
         else Inr (Fin (1 / 2))))))"

text \<open>The loop \<open>for i in range(num_steps)\<close>, with \<open>result\<close> as accumulator.\<close>

fun oscillation_loop ::
  "arith \<Rightarrow> int \<Rightarrow> number \<Rightarrow> string \<Rightarrow> int list \<Rightarrow> pyfloat list \<Rightarrow> error + pyfloat list" where
  "oscillation_loop ar num_steps num_cycles pattern [] result = Inr result"
| "oscillation_loop ar num_steps num_cycles pattern (i # rest) result =
     bind_result (oscillation_value ar num_steps num_cycles pattern i) (\<lambda>val.
       oscillation_loop ar num_steps num_cycles pattern rest (result @ [val]))"

text \<open>\<open>_generate_oscillation\<close> (an Isabelle name cannot start with an underscore).\<close>

definition generate_oscillation :: "arith \<Rightarrow> int \<Rightarrow> number \<Rightarrow> string \<Rightarrow> error + pyfloat list" where
  "generate_oscillation ar num_steps num_cycles pattern =
     oscillation_loop ar num_steps num_cycles pattern (py_range num_steps) []"

section \<open>Trajectory interpolation\<close>

text \<open>
  The inner loop shared by \<open>_generate_preset_trajectory\<close> and
  \<open>generate_display_rhythmic_sequence\<close>:
  \<^verbatim>\<open>for p in DISPLAY_PARAMETER_NAMES:
      state[p] = round(state_a[p] * (1 - alpha) + state_b[p] * alpha, 4)\<close>
  with the dictionary \<open>state\<close> as accumulator.
\<close>

fun interpolate_loop ::
  "arith \<Rightarrow> fcoords \<Rightarrow> fcoords \<Rightarrow> pyfloat \<Rightarrow> string list \<Rightarrow> fcoords \<Rightarrow> error + fcoords" where
  "interpolate_loop ar state_a state_b alpha [] state = Inr state"
| "interpolate_loop ar state_a state_b alpha (p # ps) state =
     bind_result (getitem state_a p) (\<lambda>a.
     bind_result (getitem state_b p) (\<lambda>b.
       interpolate_loop ar state_a state_b alpha ps
         (state(p \<mapsto>
            float_round ar
              (float_add ar (float_mul ar a (float_sub ar (Fin 1) alpha)) (float_mul ar b alpha))
              4))))"

definition interpolate_state :: "arith \<Rightarrow> fcoords \<Rightarrow> fcoords \<Rightarrow> pyfloat \<Rightarrow> error + fcoords" where
  "interpolate_state ar state_a state_b alpha =
     interpolate_loop ar state_a state_b alpha DISPLAY_PARAMETER_NAMES Map.empty"

text \<open>
  The entries of the preset registry. A record field is a constant of the theory, so each
  field carries a short prefix for its record (\<open>preset_state_a\<close> is the entry
  \<open>"state_a"\<close>), here and in the records below, and the parameters of the functions keep
  the names they have in the source.
\<close>

record rhythmic_preset =
  preset_state_a :: string
  preset_state_b :: string
  preset_pattern :: string
  preset_num_cycles :: int
  preset_steps_per_cycle :: int
  preset_description :: string

definition DISPLAY_RHYTHMIC_PRESETS :: "(string \<times> rhythmic_preset) list" where
  "DISPLAY_RHYTHMIC_PRESETS =
     [(''seasonal_transition'',
         \<lparr>preset_state_a = ''editorial_minimal'', preset_state_b = ''theatrical_drama'',
          preset_pattern = ''sinusoidal'', preset_num_cycles = 3,
          preset_steps_per_cycle = 24,
          preset_description =
            ''Smooth seasonal arc from restrained editorial to theatrical grandeur and back''\<rparr>),
      (''day_night_cycle'',
         \<lparr>preset_state_a = ''curated_collection'', preset_state_b = ''immersive_spectacle'',
          preset_pattern = ''sinusoidal'', preset_num_cycles = 4,
          preset_steps_per_cycle = 20,
          preset_description =
            ''Daylight curation dissolving into night-time spectacle lighting''\<rparr>),
      (''intimacy_sweep'',
         \<lparr>preset_state_a = ''abundance_wall'', preset_state_b = ''luxury_isolation'',
          preset_pattern = ''triangular'', preset_num_cycles = 2,
          preset_steps_per_cycle = 30,
          preset_description =
            ''Linear ramp from packed abundance to solitary luxury focus''\<rparr>),
      (''drama_pulse'',
         \<lparr>preset_state_a = ''curated_collection'', preset_state_b = ''immersive_spectacle'',
          preset_pattern = ''sinusoidal'', preset_num_cycles = 5,
          preset_steps_per_cycle = 16,
          preset_description =
            ''Rapid rhythmic pulse between restrained curation and full spectacle''\<rparr>),
      (''narrative_shift'',
         \<lparr>preset_state_a = ''editorial_minimal'', preset_state_b = ''narrative_journey'',
          preset_pattern = ''square'', preset_num_cycles = 4,
          preset_steps_per_cycle = 12,
          preset_description =
            ''Hard cuts between minimal editorial and storytelling progression''\<rparr>)]"

text \<open>The loop \<open>for alpha in alphas\<close> of \<open>_generate_preset_trajectory\<close>.\<close>

fun trajectory_loop ::
  "arith \<Rightarrow> fcoords \<Rightarrow> fcoords \<Rightarrow> pyfloat list \<Rightarrow> fcoords list \<Rightarrow> error + fcoords list" where
  "trajectory_loop ar state_a state_b [] trajectory = Inr trajectory"
| "trajectory_loop ar state_a state_b (alpha # alphas) trajectory =
     bind_result (interpolate_state ar state_a state_b alpha) (\<lambda>state.
       trajectory_loop ar state_a state_b alphas (trajectory @ [state]))"

text \<open>\<open>_generate_preset_trajectory\<close>.\<close>

definition generate_preset_trajectory :: "arith \<Rightarrow> string \<Rightarrow> error + fcoords list" where
  "generate_preset_trajectory ar preset_name =
     bind_result (getitem (map_of DISPLAY_RHYTHMIC_PRESETS) preset_name) (\<lambda>config.
     bind_result (getitem (map_of DISPLAY_STATE_COORDINATES) (preset_state_a config)) (\<lambda>A.
     bind_result (getitem (map_of DISPLAY_STATE_COORDINATES) (preset_state_b config)) (\<lambda>B.
       let state_a = float_coords ar A;
           state_b = float_coords ar B;
           total_steps = preset_num_cycles config * preset_steps_per_cycle config
       in bind_result
            (generate_oscillation ar total_steps (IntNum (preset_num_cycles config))
               (preset_pattern config))
            (\<lambda>alphas. trajectory_loop ar state_a state_b alphas []))))"

section \<open>Rhythmic sequence generation\<close>

record sequence_point =
  point_step :: int
  point_phase :: pyfloat
  point_state :: fcoords

text \<open>
  The result dictionary of \<open>generate_display_rhythmic_sequence\<close>. The constant entries
  \<open>"layer"\<close> and \<open>"cost_tokens"\<close> of the result dictionaries are left out throughout.
\<close>

record rhythmic_sequence =
  seq_state_a :: string
  seq_state_b :: string
  seq_pattern :: string
  seq_num_cycles :: int
  seq_steps_per_cycle :: int
  seq_total_steps :: int
  seq_period :: int
  seq_phase_offset :: pyfloat
  seq_sequence :: "sequence_point list"

text \<open>\<open>enumerate(xs)\<close>.\<close>

definition py_enumerate :: "'a list \<Rightarrow> (int \<times> 'a) list" where
  "py_enumerate xs = zip (py_range (int (length xs))) xs"

text \<open>The loop \<open>for i, alpha in enumerate(alphas)\<close> of \<open>generate_display_rhythmic_sequence\<close>.\<close>

fun sequence_loop ::
  "arith \<Rightarrow> fcoords \<Rightarrow> fcoords \<Rightarrow> (int \<times> pyfloat) list \<Rightarrow> sequence_point list
     \<Rightarrow> error + sequence_point list" where
  "sequence_loop ar state_a state_b [] sequence = Inr sequence"
| "sequence_loop ar state_a state_b ((i, alpha) # rest) sequence =
     bind_result (interpolate_state ar state_a state_b alpha) (\<lambda>state.
       sequence_loop ar state_a state_b rest
         (sequence @ [\<lparr>point_step = i, point_phase = float_round ar alpha 4,
                       point_state = state\<rparr>]))"

text \<open>
  The phase rotation:
  \<^verbatim>\<open>if phase_offset > 0:
      offset_steps = int(phase_offset * steps_per_cycle)
      alphas = alphas[offset_steps:] + alphas[:offset_steps]\<close>
  The product is a float product (\<open>steps_per_cycle\<close> is converted first), and \<open>int\<close>
  raises on an infinity or NaN.
\<close>

definition apply_phase_offset ::
  "arith \<Rightarrow> pyfloat list \<Rightarrow> pyfloat \<Rightarrow> int \<Rightarrow> error + pyfloat list" where
  "apply_phase_offset ar alphas phase_offset steps_per_cycle =
     (if float_lt (Fin 0) phase_offset then
        bind_result (float_of_int ar steps_per_cycle) (\<lambda>steps.
        bind_result (py_int (float_mul ar phase_offset steps)) (\<lambda>offset_steps.
          Inr (slice_from alphas offset_steps @ slice_to alphas offset_steps)))
      else Inr alphas)"

definition generate_display_rhythmic_sequence ::
  "arith \<Rightarrow> string \<Rightarrow> string \<Rightarrow> string \<Rightarrow> int \<Rightarrow> int \<Rightarrow> pyfloat \<Rightarrow> error + rhythmic_sequence" where
  "generate_display_rhythmic_sequence ar state_a_id state_b_id oscillation_pattern num_cycles
       steps_per_cycle phase_offset =
     (if map_of DISPLAY_STATE_COORDINATES state_a_id = None then Inl (UnknownState state_a_id)
      else if map_of DISPLAY_STATE_COORDINATES state_b_id = None then Inl (UnknownState state_b_id)
      else
        bind_result (getitem (map_of DISPLAY_STATE_COORDINATES) state_a_id) (\<lambda>A.
        bind_result (getitem (map_of DISPLAY_STATE_COORDINATES) state_b_id) (\<lambda>B.
          let state_a = float_coords ar A;
              state_b = float_coords ar B;
              total_steps = num_cycles * steps_per_cycle
          in bind_result
               (generate_oscillation ar total_steps (IntNum num_cycles) oscillation_pattern)
               (\<lambda>alphas.
             bind_result (apply_phase_offset ar alphas phase_offset steps_per_cycle) (\<lambda>alphas.
             bind_result (sequence_loop ar state_a state_b (py_enumerate alphas) []) (\<lambda>sequence.
               Inr \<lparr>seq_state_a = state_a_id,
                    seq_state_b = state_b_id,
                    seq_pattern = oscillation_pattern,
                    seq_num_cycles = num_cycles,
                    seq_steps_per_cycle = steps_per_cycle,
                    seq_total_steps = total_steps,
                    seq_period = steps_per_cycle,
                    seq_phase_offset = phase_offset,
                    seq_sequence = sequence\<rparr>))))))"

section \<open>Nearest-neighbour vocabulary mapper\<close>

record visual_type =
  type_coords :: coords
  type_keywords :: "string list"

definition DISPLAY_VISUAL_TYPES :: "(string \<times> visual_type) list" where
  "DISPLAY_VISUAL_TYPES =
     [(''luxury_restraint'',
         \<lparr>type_coords =
            [''compositional_tension'' \<mapsto> 0.10, ''depth_complexity'' \<mapsto> 0.30,
             ''lighting_drama'' \<mapsto> 0.35, ''viewing_intimacy'' \<mapsto> 0.85,
             ''negative_space_ratio'' \<mapsto> 0.90],
          type_keywords =
            [''single hero product in vast negative space'',
             ''soft directional key light with graduated shadows'',
             ''neutral matte backdrop'',
             ''precise golden-ratio placement'',
             ''intimate close-inspection viewing distance'',
             ''museum-quality isolation pedestal'',
             ''restrained monochromatic palette'']\<rparr>),
      (''theatrical_grandeur'',
         \<lparr>type_coords =
            [''compositional_tension'' \<mapsto> 0.60, ''depth_complexity'' \<mapsto> 0.85,
             ''lighting_drama'' \<mapsto> 0.90, ''viewing_intimacy'' \<mapsto> 0.50,
             ''negative_space_ratio'' \<mapsto> 0.35],
          type_keywords =
            [''dramatic three-zone depth staging foreground midground background'',
             ''high-contrast accent spotlights with hard-edged shadows'',
             ''sculptural uplighting from below at 25 degrees'',
             ''rich warm color temperature 3200K tungsten glow'',
             ''pyramidal composition rising to apex focal point'',
             ''theatrical curtain framing at window edges'',
             ''street-level pedestrian viewing geometry'']\<rparr>),
      (''abundance_energy'',
         \<lparr>type_coords =
            [''compositional_tension'' \<mapsto> 0.95, ''depth_complexity'' \<mapsto> 0.10,
             ''lighting_drama'' \<mapsto> 0.15, ''viewing_intimacy'' \<mapsto> 0.20,
             ''negative_space_ratio'' \<mapsto> 0.10],
          type_keywords =
            [''dense repetitive product grid filling entire window plane'',
             ''flat compressed 2D graphic composition'',
             ''bright even shadowless ambient illumination'',
             ''rhythmic scanning eye movement pattern'',
             ''maximum visual density minimal negative space'',
             ''bold pop-art color saturation'',
             ''passing-vehicle scale legibility'']\<rparr>),
      (''editorial_cool'',
         \<lparr>type_coords =
            [''compositional_tension'' \<mapsto> 0.15, ''depth_complexity'' \<mapsto> 0.15,
             ''lighting_drama'' \<mapsto> 0.50, ''viewing_intimacy'' \<mapsto> 0.80,
             ''negative_space_ratio'' \<mapsto> 0.85],
          type_keywords =
            [''minimal editorial composition with deliberate asymmetry'',
             ''crisp daylight-balanced cross-lighting at 5600K'',
             ''clean white or pale grey backdrop'',
             ''precise typographic-scale spatial intervals'',
             ''shallow depth single focal plane'',
             ''gallery-like negative space surrounding subject'',
             ''close-inspection detail-revealing perspective'']\<rparr>),
      (''spectacle_immersion'',
         \<lparr>type_coords =
            [''compositional_tension'' \<mapsto> 0.75, ''depth_complexity'' \<mapsto> 0.95,
             ''lighting_drama'' \<mapsto> 0.95, ''viewing_intimacy'' \<mapsto> 0.45,
             ''negative_space_ratio'' \<mapsto> 0.25],
          type_keywords =
            [''radial composition emanating from luminous center'',
             ''forced-perspective exaggerated depth staging'',
             ''theatrical uplighting creating monumental scale'',
             ''warm-to-cool color temperature gradient'',
             ''immersive wraparound environmental staging'',
             ''dynamic outward-from-center eye movement'',
             ''multiple overlapping depth planes'']\<rparr>)]"

text \<open>\<open>min_dist\<close> starts as \<open>float("inf")\<close>; every distance computed here is finite.\<close>

datatype ext_real = Finite real | PosInf

fun less_ext :: "real \<Rightarrow> ext_real \<Rightarrow> bool" where
  "less_ext d PosInf = True"
| "less_ext d (Finite m) = (d < m)"

fun round_ext :: "ext_real \<Rightarrow> nat \<Rightarrow> ext_real" where
  "round_ext PosInf n = PosInf"
| "round_ext (Finite d) n = Finite (py_round d n)"

text \<open>The distance computed in the body of the search loop.\<close>

definition type_distance :: "coords \<Rightarrow> visual_type \<Rightarrow> real" where
  "type_distance state type_def =
     (let coords = type_coords type_def;
          dist_sq = sum_list (map (\<lambda>p. (get_default state p 0.5 - get_default coords p 0.5) ^ 2)
                                DISPLAY_PARAMETER_NAMES)
      in sqrt dist_sq)"

text \<open>The loop \<open>for type_name, type_def in DISPLAY_VISUAL_TYPES.items()\<close>, with
  \<open>min_dist\<close> and \<open>nearest_type\<close> as accumulators.\<close>

fun nearest_loop ::
  "coords \<Rightarrow> (string \<times> visual_type) list \<Rightarrow> ext_real \<Rightarrow> string option
     \<Rightarrow> ext_real \<times> string option" where
  "nearest_loop state [] min_dist nearest_type = (min_dist, nearest_type)"
| "nearest_loop state ((type_name, type_def) # rest) min_dist nearest_type =
     (let dist = type_distance state type_def
      in if less_ext dist min_dist then nearest_loop state rest (Finite dist) (Some type_name)
         else nearest_loop state rest min_dist nearest_type)"

record vocabulary =
  vocab_nearest_type :: string
  vocab_distance :: ext_real
  vocab_keywords :: "string list"
  vocab_strength :: real
  vocab_state :: coords

text \<open>\<open>_extract_visual_vocabulary\<close>. The lookup \<open>DISPLAY_VISUAL_TYPES[nearest_type]\<close>
  raises \<open>KeyError\<close> when \<open>nearest_type\<close> is still \<open>None\<close>.\<close>

definition extract_visual_vocabulary :: "coords \<Rightarrow> real \<Rightarrow> error + vocabulary" where
  "extract_visual_vocabulary state strength =
     (case nearest_loop state DISPLAY_VISUAL_TYPES PosInf None of
        (min_dist, nearest_type) \<Rightarrow>
          (case nearest_type of
             None \<Rightarrow> Inl (KeyError None)
           | Some name \<Rightarrow>
               bind_result (getitem (map_of DISPLAY_VISUAL_TYPES) name) (\<lambda>type_def.
                 let keywords =
                       (if strength < 0.2 then slice_to (type_keywords type_def) 3
                        else if strength < 0.5 then slice_to (type_keywords type_def) 5
                        else type_keywords type_def)
                 in Inr \<lparr>vocab_nearest_type = name,
                         vocab_distance = round_ext min_dist 4,
                         vocab_keywords = keywords,
                         vocab_strength = strength,
                         vocab_state = state\<rparr>)))"

section \<open>Nearest-neighbour vocabulary mapper on floats\<close>

text \<open>
  \<open>_extract_visual_vocabulary\<close> once more, now over \<open>pyfloat\<close>: the functions of the
  previous section with the suffix \<open>_float\<close>. The distance computation can raise, a
  distance can be an infinity or NaN, and the comparison \<open>dist < min_dist\<close> is the one of
  floats.

  The sum \<open>sum((state.get(p, 0.5) - coords.get(p, 0.5)) ** 2 for p in ...)\<close> starts from the
  integer 0 and adds the squares from left to right, each square computed when the sum
  asks for it: a loop with the running sum as accumulator.
\<close>

fun dist_sq_loop ::
  "arith \<Rightarrow> fcoords \<Rightarrow> fcoords \<Rightarrow> string list \<Rightarrow> pyfloat \<Rightarrow> error + pyfloat" where
  "dist_sq_loop ar state coords [] dist_sq = Inr dist_sq"
| "dist_sq_loop ar state coords (p # ps) dist_sq =
     bind_result
       (float_pow2 ar
          (float_sub ar (get_default state p (Fin (1 / 2))) (get_default coords p (Fin (1 / 2)))))
       (\<lambda>square. dist_sq_loop ar state coords ps (float_add ar dist_sq square))"

definition type_distance_float :: "arith \<Rightarrow> fcoords \<Rightarrow> visual_type \<Rightarrow> error + pyfloat" where
  "type_distance_float ar state type_def =
     (let coords = float_coords ar (type_coords type_def)
      in bind_result (dist_sq_loop ar state coords DISPLAY_PARAMETER_NAMES (Fin 0)) (\<lambda>dist_sq.
           math_sqrt ar dist_sq))"

fun nearest_loop_float ::
  "arith \<Rightarrow> fcoords \<Rightarrow> (string \<times> visual_type) list \<Rightarrow> pyfloat \<Rightarrow> string option
     \<Rightarrow> error + pyfloat \<times> string option" where
  "nearest_loop_float ar state [] min_dist nearest_type = Inr (min_dist, nearest_type)"
| "nearest_loop_float ar state ((type_name, type_def) # rest) min_dist nearest_type =
     bind_result (type_distance_float ar state type_def) (\<lambda>dist.
       if float_lt dist min_dist then nearest_loop_float ar state rest dist (Some type_name)
       else nearest_loop_float ar state rest min_dist nearest_type)"

record vocabulary_float =
  fvocab_nearest_type :: string
  fvocab_distance :: pyfloat
  fvocab_keywords :: "string list"
  fvocab_strength :: pyfloat
  fvocab_state :: fcoords

definition extract_visual_vocabulary_float ::
  "arith \<Rightarrow> fcoords \<Rightarrow> pyfloat \<Rightarrow> error + vocabulary_float" where
  "extract_visual_vocabulary_float ar state strength =
     bind_result (nearest_loop_float ar state DISPLAY_VISUAL_TYPES PInf None)
       (\<lambda>(min_dist, nearest_type).
          case nearest_type of
            None \<Rightarrow> Inl (KeyError None)
          | Some name \<Rightarrow>
              bind_result (getitem (map_of DISPLAY_VISUAL_TYPES) name) (\<lambda>type_def.
                let keywords =
                      (if float_lt strength (float_literal ar (2 / 10))
                       then slice_to (type_keywords type_def) 3
                       else if float_lt strength (Fin (1 / 2))
                       then slice_to (type_keywords type_def) 5
                       else type_keywords type_def)
                in Inr \<lparr>fvocab_nearest_type = name,
                        fvocab_distance = float_round ar min_dist 4,
                        fvocab_keywords = keywords,
                        fvocab_strength = strength,
                        fvocab_state = state\<rparr>))"

section \<open>Keyframe sampling and prompt generation\<close>

record keyframe =
  kf_step :: int
  kf_state :: coords
  kf_vocabulary :: vocabulary
  kf_prompt :: string

text \<open>The prompt text: the optional style modifier, the fixed lead and the keywords,
  joined by \<open>", "\<close>.\<close>

definition build_prompt :: "string \<Rightarrow> string list \<Rightarrow> string" where
  "build_prompt style_modifier keywords =
     (let prompt_parts = (if style_modifier \<noteq> [] then [style_modifier] else []);
          prompt_parts = prompt_parts @ [''Shop window display photograph:''];
          prompt_parts = prompt_parts @ keywords
      in join '', '' prompt_parts)"

text \<open>
  The index selection of sequence mode:
  \<^verbatim>\<open>step_size = max(1, total // keyframe_count)
  indices = [min(i * step_size, total - 1) for i in range(keyframe_count)]\<close>
  Integer floor division by zero raises. (\<open>total\<close> is a constant of HOL, so the
  parameter is \<open>total_len\<close>.)
\<close>

definition keyframe_indices :: "int \<Rightarrow> int \<Rightarrow> error + int list" where
  "keyframe_indices total_len keyframe_count =
     (if keyframe_count = 0 then Inl ZeroDivisionError
      else
        (let step_size = max 1 (total_len div keyframe_count)
         in Inr (map (\<lambda>i. min (i * step_size) (total_len - 1)) (py_range keyframe_count))))"

text \<open>The loop \<open>for idx in indices\<close>.\<close>

fun keyframe_loop ::
  "coords list \<Rightarrow> string \<Rightarrow> int list \<Rightarrow> keyframe list \<Rightarrow> error + keyframe list" where
  "keyframe_loop trajectory style_modifier [] keyframes = Inr keyframes"
| "keyframe_loop trajectory style_modifier (idx # rest) keyframes =
     bind_result (list_getitem trajectory idx) (\<lambda>state.
     bind_result (extract_visual_vocabulary state 1.0) (\<lambda>vocab.
       keyframe_loop trajectory style_modifier rest
         (keyframes @ [\<lparr>kf_step = idx, kf_state = state,
                        kf_vocabulary = vocab,
                        kf_prompt = build_prompt style_modifier (vocab_keywords vocab)\<rparr>])))"

text \<open>Lines 1158 to 1176: the keyframes sampled from a trajectory.\<close>

definition sample_keyframes :: "coords list \<Rightarrow> string \<Rightarrow> int \<Rightarrow> error + keyframe list" where
  "sample_keyframes trajectory style_modifier keyframe_count =
     (let total = int (length trajectory)
      in bind_result (keyframe_indices total keyframe_count) (\<lambda>indices.
           keyframe_loop trajectory style_modifier indices []))"

section \<open>Distance calculator\<close>

record state_distance =
  dist_state_a :: string
  dist_state_b :: string
  dist_euclidean_distance :: real
  dist_parameter_differences :: coords

text \<open>The loop \<open>for p in DISPLAY_PARAMETER_NAMES\<close> of \<open>compute_display_state_distance\<close>,
  with \<open>components\<close> and \<open>total_sq\<close> as accumulators.\<close>

fun distance_loop ::
  "coords \<Rightarrow> coords \<Rightarrow> string list \<Rightarrow> coords \<Rightarrow> real \<Rightarrow> error + coords \<times> real" where
  "distance_loop a b [] components total_sq = Inr (components, total_sq)"
| "distance_loop a b (p # ps) components total_sq =
     bind_result (getitem b p) (\<lambda>bp.
     bind_result (getitem a p) (\<lambda>ap.
       let diff = bp - ap
       in distance_loop a b ps (components(p \<mapsto> py_round diff 4)) (total_sq + diff ^ 2)))"

definition compute_display_state_distance :: "string \<Rightarrow> string \<Rightarrow> error + state_distance" where
  "compute_display_state_distance state_a_id state_b_id =
     (if map_of DISPLAY_STATE_COORDINATES state_a_id = None then Inl (UnknownState state_a_id)
      else if map_of DISPLAY_STATE_COORDINATES state_b_id = None then Inl (UnknownState state_b_id)
      else
        bind_result (getitem (map_of DISPLAY_STATE_COORDINATES) state_a_id) (\<lambda>a.
        bind_result (getitem (map_of DISPLAY_STATE_COORDINATES) state_b_id) (\<lambda>b.
        bind_result (distance_loop a b DISPLAY_PARAMETER_NAMES Map.empty 0.0) (\<lambda>(components, total_sq).
          let distance = sqrt total_sq
          in Inr \<lparr>dist_state_a = state_a_id,
                  dist_state_b = state_b_id,
                  dist_euclidean_distance = py_round distance 4,
                  dist_parameter_differences = components\<rparr>))))"

section \<open>The specification's wording\<close>

text \<open>
  The definitions named \<open>spec_\<close> follow the specification rather than the code, for
  comparison with the functions above. The interpolated vector of two coordinate vectors
  at blend weight \<open>alpha\<close>: every recognized axis holds
  \<open>A[axis] * (1 - alpha) + B[axis] * alpha\<close>, rounded to 4 decimal digits, computed in
  the arithmetic of floats.
\<close>

definition spec_interpolated :: "arith \<Rightarrow> fcoords \<Rightarrow> fcoords \<Rightarrow> pyfloat \<Rightarrow> fcoords" where
  "spec_interpolated ar A B alpha =
     (\<lambda>axis. if axis \<in> set DISPLAY_PARAMETER_NAMES
        then Some (float_round ar
               (float_add ar (float_mul ar (the (A axis)) (float_sub ar (Fin 1) alpha))
                  (float_mul ar (the (B axis)) alpha)) 4)
        else None)"

text \<open>A partial input vector with every missing recognized axis filled with the neutral
  default 0.5.\<close>

definition spec_fill_missing :: "fcoords \<Rightarrow> fcoords" where
  "spec_fill_missing state =
     (\<lambda>axis. if axis \<in> set DISPLAY_PARAMETER_NAMES \<and> state axis = None then Some (Fin (1 / 2))
        else state axis)"

text \<open>The entry of a sequence result for a step and its blend weight: the step, the
  phase rounded to 4 digits and the interpolated vector.\<close>

definition spec_point :: "arith \<Rightarrow> fcoords \<Rightarrow> fcoords \<Rightarrow> int \<times> pyfloat \<Rightarrow> sequence_point" where
  "spec_point ar A B = (\<lambda>(i, alpha).
     \<lparr>point_step = i, point_phase = float_round ar alpha 4,
      point_state = spec_interpolated ar A B alpha\<rparr>)"

text \<open>An input vector of the mapper whose entries on the recognized axes, where present,
  are finite numbers of magnitude at most \<open>10 ^ 6\<close>. Other keys are not restricted.\<close>

definition moderate_state :: "fcoords \<Rightarrow> bool" where
  "moderate_state state \<longleftrightarrow>
     (\<forall>axis \<in> set DISPLAY_PARAMETER_NAMES.
        case state axis of
          None \<Rightarrow> True
        | Some v \<Rightarrow> (case v of Fin x \<Rightarrow> \<bar>x\<bar> \<le> 1000000 | _ \<Rightarrow> False))"

text \<open>Not from the specification: the keyframe that the body of the keyframe loop builds
  for an index inside the trajectory, where the vocabulary mapper succeeds. It is the closed
  form in which the lemmas on the loop are stated.\<close>

definition keyframe_at :: "coords list \<Rightarrow> string \<Rightarrow> int \<Rightarrow> keyframe" where
  "keyframe_at trajectory style_modifier idx =
     (let state = trajectory ! nat idx;
          vocab = projr (extract_visual_vocabulary state 1.0)
      in \<lparr>kf_step = idx, kf_state = state, kf_vocabulary = vocab,
          kf_prompt = build_prompt style_modifier (vocab_keywords vocab)\<rparr>)"

section \<open>Ranges, dictionaries and slices\<close>

lemma length_py_range: "length (py_range n) = nat n"
  by (simp add: py_range_def)

lemma py_range_2: "py_range 2 = [0, 1]"
  by (simp add: py_range_def upto.simps)

lemma registered_dom:
  assumes "map_of DISPLAY_STATE_COORDINATES name = Some A"
  shows "dom A = set DISPLAY_PARAMETER_NAMES"
proof -
  have "A \<in> snd ` set DISPLAY_STATE_COORDINATES"
    using assms by (metis map_of_SomeD image_eqI snd_conv)
  then have "A \<in> set (map snd DISPLAY_STATE_COORDINATES)"
    by simp
  then show ?thesis
    unfolding DISPLAY_STATE_COORDINATES_def DISPLAY_PARAMETER_NAMES_def list.map snd_conv
      set_simps insert_iff empty_iff
    by (elim disjE FalseE)
      (simp_all only: dom_fun_upd dom_empty option.distinct if_False list.set insert_commute)
qed

lemma getitem_Some: "d k = Some v \<Longrightarrow> getitem d k = Inr v"
  by (simp add: getitem_def)

lemma getitem_dom: "k \<in> dom d \<Longrightarrow> getitem d k = Inr (the (d k))"
  by (auto simp add: getitem_def)

lemma length_py_enumerate: "length (py_enumerate xs) = length xs"
  by (simp add: py_enumerate_def length_py_range)

lemma py_range_nth: "i < nat n \<Longrightarrow> py_range n ! i = int i"
  by (simp add: py_range_def)

lemma py_enumerate_nth: "i < length xs \<Longrightarrow> py_enumerate xs ! i = (int i, xs ! i)"
  by (simp add: py_enumerate_def length_py_range py_range_nth)

lemma slice_rotate:
  assumes "0 \<le> k" and "k \<le> int (length xs)"
  shows "slice_from xs k @ slice_to xs k = rotate (nat k) xs"
proof (cases "nat k = length xs")
  case True
  then show ?thesis
    using assms by (simp add: slice_from_def slice_to_def slice_bound_def)
next
  case False
  then have "nat k < length xs"
    using assms by linarith
  then show ?thesis
    using assms by (simp add: slice_from_def slice_to_def slice_bound_def rotate_drop_take min_def)
qed

lemma slice_beyond:
  assumes "int (length xs) \<le> k"
  shows "slice_from xs k @ slice_to xs k = xs"
  using assms by (simp add: slice_from_def slice_to_def slice_bound_def Let_def)

section \<open>Rounding\<close>

lemma rounding_exact_arith: "rounding exact_arith"
  by (simp add: rounding_def exact_arith_def)

lemma bounded_sine_exact_arith: "bounded_sine exact_arith"
  by (simp add: bounded_sine_def exact_arith_def)

lemma nearest_le:
  assumes "rounding ar" and "x \<le> of_int n" and "\<bar>n\<bar> \<le> 2 ^ 53"
  shows "nearest ar x \<le> of_int n"
proof -
  have "nearest ar x \<le> nearest ar (of_int n)"
    using assms(1,2) unfolding rounding_def by blast
  moreover have "nearest ar (of_int n) = of_int n"
    using assms(1,3) unfolding rounding_def by blast
  ultimately show ?thesis
    by simp
qed

lemma nearest_ge:
  assumes "rounding ar" and "of_int n \<le> x" and "\<bar>n\<bar> \<le> 2 ^ 53"
  shows "of_int n \<le> nearest ar x"
proof -
  have "nearest ar (of_int n) \<le> nearest ar x"
    using assms(1,2) unfolding rounding_def by blast
  moreover have "nearest ar (of_int n) = of_int n"
    using assms(1,3) unfolding rounding_def by blast
  ultimately show ?thesis
    by simp
qed

lemma nearest_half_le:
  assumes "rounding ar" and "x \<le> 1 / 2"
  shows "nearest ar x \<le> 1 / 2"
proof -
  have "nearest ar x \<le> nearest ar (1 / 2)"
    using assms unfolding rounding_def by blast
  then show ?thesis
    using assms(1) unfolding rounding_def by simp
qed

text \<open>A result between two integers of magnitude up to \<open>2 ^ 53\<close> rounds to a finite
  double between them.\<close>

lemma fl_between:
  assumes "rounding ar" and "of_int lo \<le> x" and "x \<le> of_int hi"
    and "\<bar>lo\<bar> \<le> 2 ^ 53" and "\<bar>hi\<bar> \<le> 2 ^ 53"
  shows "fl ar x = Fin (nearest ar x) \<and> of_int lo \<le> nearest ar x \<and> nearest ar x \<le> of_int hi"
proof -
  have lo: "of_int lo \<le> nearest ar x"
    by (rule nearest_ge [OF assms(1,2,4)])
  have hi: "nearest ar x \<le> of_int hi"
    by (rule nearest_le [OF assms(1,3,5)])
  have "(of_int hi :: real) \<le> 2 ^ 53"
  proof -
    have "hi \<le> 2 ^ 53"
      using assms(5) by simp
    then have "(of_int hi :: real) \<le> of_int (2 ^ 53)"
      by (simp only: of_int_le_iff)
    then show ?thesis
      by simp
  qed
  moreover have "- (2 ^ 53) \<le> (of_int lo :: real)"
  proof -
    have "- (2 ^ 53) \<le> lo"
      using assms(4) by simp
    then have "(of_int (- (2 ^ 53)) :: real) \<le> of_int lo"
      by (simp only: of_int_le_iff)
    then show ?thesis
      by simp
  qed
  moreover have "(2 :: real) ^ 53 < 2 ^ 1024"
    by (rule power_strict_increasing) simp_all
  ultimately have "nearest ar x < 2 ^ 1024" and "- (2 ^ 1024) < nearest ar x"
    using lo hi by linarith+
  then have "fl ar x = Fin (nearest ar x)"
    by (simp add: fl_def Let_def)
  with lo hi show ?thesis
    by simp
qed

lemma float_of_int_exact:
  assumes "rounding ar" and "\<bar>n\<bar> \<le> 2 ^ 53"
  shows "float_of_int ar n = Inr (Fin (of_int n))"
proof -
  have "nearest ar (of_int n) = of_int n"
    using assms unfolding rounding_def by blast
  moreover have "fl ar (of_int n) = Fin (nearest ar (of_int n))"
    using fl_between [OF assms(1) order_refl order_refl assms(2,2)] by simp
  ultimately show ?thesis
    by (simp add: float_of_int_def)
qed

lemma round_half_even_between:
  assumes "of_int lo \<le> x" and "x \<le> of_int hi"
  shows "lo \<le> round_half_even x \<and> round_half_even x \<le> hi"
proof -
  have f: "lo \<le> \<lfloor>x\<rfloor>" and g: "\<lfloor>x\<rfloor> \<le> hi"
    using assms by (simp_all add: le_floor_iff floor_le_iff)
  show ?thesis
  proof (cases "\<lfloor>x\<rfloor> = hi")
    case True
    then have "x - of_int \<lfloor>x\<rfloor> \<le> 0"
      using assms(2) by simp
    then have "round_half_even x = \<lfloor>x\<rfloor>"
      by (simp add: round_half_even_def Let_def)
    with f g show ?thesis
      by simp
  next
    case False
    with g have "\<lfloor>x\<rfloor> + 1 \<le> hi"
      by simp
    moreover have "round_half_even x = \<lfloor>x\<rfloor> \<or> round_half_even x = \<lfloor>x\<rfloor> + 1"
      by (simp add: round_half_even_def Let_def)
    ultimately show ?thesis
      using f by auto
  qed
qed

lemma py_round_between:
  assumes "of_int lo \<le> x" and "x \<le> of_int hi"
  shows "of_int lo \<le> py_round x 4 \<and> py_round x 4 \<le> of_int hi"
proof -
  have "of_int (lo * 10000) \<le> x * 10 ^ 4" and "x * 10 ^ 4 \<le> of_int (hi * 10000)"
    using assms by simp_all
  then have "lo * 10000 \<le> round_half_even (x * 10 ^ 4) \<and>
      round_half_even (x * 10 ^ 4) \<le> hi * 10000"
    by (rule round_half_even_between)
  then have "(of_int (lo * 10000) :: real) \<le> of_int (round_half_even (x * 10 ^ 4))"
    and "(of_int (round_half_even (x * 10 ^ 4)) :: real) \<le> of_int (hi * 10000)"
    by (simp_all only: of_int_le_iff)
  then show ?thesis
    by (simp add: py_round_def field_simps)
qed


section \<open>Interpolation on complete coordinate vectors\<close>

lemma interpolate_loop_complete:
  assumes "set ps \<subseteq> dom A" and "set ps \<subseteq> dom B"
  shows "interpolate_loop ar A B alpha ps st =
    Inr (\<lambda>q. if q \<in> set ps
          then Some (float_round ar
                 (float_add ar (float_mul ar (the (A q)) (float_sub ar (Fin 1) alpha))
                    (float_mul ar (the (B q)) alpha)) 4)
          else st q)"
  using assms
proof (induction ps arbitrary: st)
  case Nil
  show ?case by simp
next
  case (Cons p ps)
  then have a: "getitem A p = Inr (the (A p))" and b: "getitem B p = Inr (the (B p))"
    by (simp_all add: getitem_dom)
  from Cons.prems have sub: "set ps \<subseteq> dom A" "set ps \<subseteq> dom B"
    by simp_all
  show ?case
    by (simp add: a b Cons.IH [OF sub]) (rule ext, simp)
qed

lemma interpolate_state_complete:
  assumes "set DISPLAY_PARAMETER_NAMES \<subseteq> dom A" and "set DISPLAY_PARAMETER_NAMES \<subseteq> dom B"
  shows "interpolate_state ar A B alpha = Inr (spec_interpolated ar A B alpha)"
  unfolding interpolate_state_def spec_interpolated_def
  by (simp add: interpolate_loop_complete [OF assms])

lemma trajectory_loop_complete:
  assumes "set DISPLAY_PARAMETER_NAMES \<subseteq> dom A" and "set DISPLAY_PARAMETER_NAMES \<subseteq> dom B"
  shows "trajectory_loop ar A B alphas acc = Inr (acc @ map (spec_interpolated ar A B) alphas)"
  by (induction alphas arbitrary: acc) (simp_all add: interpolate_state_complete [OF assms])

lemma sequence_loop_complete:
  assumes "set DISPLAY_PARAMETER_NAMES \<subseteq> dom A" and "set DISPLAY_PARAMETER_NAMES \<subseteq> dom B"
  shows "sequence_loop ar A B ias acc = Inr (acc @ map (spec_point ar A B) ias)"
proof (induction ias arbitrary: acc)
  case Nil
  show ?case by simp
next
  case (Cons ia ias)
  obtain i alpha where ia: "ia = (i, alpha)"
    by (cases ia)
  show ?case
    by (simp add: ia interpolate_state_complete [OF assms] Cons.IH spec_point_def)
qed

lemma float_coords_dom: "dom (float_coords ar c) = dom c"
  by (auto simp add: float_coords_def dom_def)

lemma float_coords_registered:
  assumes "map_of DISPLAY_STATE_COORDINATES name = Some A"
  shows "set DISPLAY_PARAMETER_NAMES \<subseteq> dom (float_coords ar A)"
  using registered_dom [OF assms] by (simp add: float_coords_dom)


text \<open>On operands between 0 and 1 nothing overflows: each of the five operations of the
  interpolation formula is the exact one followed by rounding to a double.\<close>

lemma interpolated_value:
  assumes r: "rounding ar"
    and a: "0 \<le> a" "a \<le> 1" and b: "0 \<le> b" "b \<le> 1" and al: "0 \<le> \<alpha>" "\<alpha> \<le> 1"
  shows "float_round ar
      (float_add ar (float_mul ar (Fin a) (float_sub ar (Fin 1) (Fin \<alpha>)))
         (float_mul ar (Fin b) (Fin \<alpha>))) 4 =
    Fin (nearest ar (py_round
      (nearest ar (nearest ar (a * nearest ar (1 - \<alpha>)) + nearest ar (b * \<alpha>))) 4))"
proof -
  let ?s = "nearest ar (1 - \<alpha>)"
  let ?p = "nearest ar (a * ?s)"
  let ?q = "nearest ar (b * \<alpha>)"
  let ?v = "nearest ar (?p + ?q)"
  have s: "fl ar (1 - \<alpha>) = Fin ?s \<and> 0 \<le> ?s \<and> ?s \<le> 1"
    using fl_between [OF r, of 0 "1 - \<alpha>" 1] al by simp
  have "0 \<le> a * ?s" and "a * ?s \<le> 1"
    using a s by (simp_all add: mult_le_one)
  then have p: "fl ar (a * ?s) = Fin ?p \<and> 0 \<le> ?p \<and> ?p \<le> 1"
    using fl_between [OF r, of 0 "a * ?s" 1] by simp
  have "0 \<le> b * \<alpha>" and "b * \<alpha> \<le> 1"
    using b al by (simp_all add: mult_le_one)
  then have q: "fl ar (b * \<alpha>) = Fin ?q \<and> 0 \<le> ?q \<and> ?q \<le> 1"
    using fl_between [OF r, of 0 "b * \<alpha>" 1] by simp
  have "0 \<le> ?p + ?q" and "?p + ?q \<le> 2"
    using p q by linarith+
  then have v: "fl ar (?p + ?q) = Fin ?v \<and> 0 \<le> ?v \<and> ?v \<le> 2"
    using fl_between [OF r, of 0 "?p + ?q" 2] by simp
  then have "0 \<le> py_round ?v 4 \<and> py_round ?v 4 \<le> 2"
    using py_round_between [of 0 ?v 2] by simp
  then have w: "fl ar (py_round ?v 4) = Fin (nearest ar (py_round ?v 4))"
    using fl_between [OF r, of 0 "py_round ?v 4" 2] by simp
  show ?thesis
    by (simp add: s p q v w)
qed

section \<open>Trajectory interpolator\<close>

text \<open>
  Claim C3. For coordinate vectors \<open>A\<close> and \<open>B\<close> (each holding all five axes) and a
  waveform sequence of length \<open>L\<close>, both interpolation loops (the one of
  \<open>_generate_preset_trajectory\<close> and the one of \<open>generate_display_rhythmic_sequence\<close>)
  succeed and produce exactly \<open>L\<close> coordinate vectors over the five axes, where the value
  of each axis at step \<open>i\<close> is \<open>A[axis] * (1 - alpha) + B[axis] * alpha\<close> rounded to 4
  decimal digits, \<open>alpha\<close> being the \<open>i\<close>-th waveform value, all of it in the arithmetic
  of floats. Where the two coordinates and \<open>alpha\<close> are numbers between 0 and 1 and the
  arithmetic rounds as doubles do, this value is finite: the real number
  \<open>a * (1 - alpha) + b * alpha\<close> with each of its four operations rounded to a double,
  rounded to 4 decimal digits and read back as a double.
\<close>

theorem interpolation_formula:
  assumes "set DISPLAY_PARAMETER_NAMES \<subseteq> dom A" and "set DISPLAY_PARAMETER_NAMES \<subseteq> dom B"
  shows "\<exists>trajectory sequence.
    trajectory_loop ar A B alphas [] = Inr trajectory \<and>
    sequence_loop ar A B (py_enumerate alphas) [] = Inr sequence \<and>
    length trajectory = length alphas \<and> length sequence = length alphas \<and>
    (\<forall>i < length alphas.
       point_step (sequence ! i) = int i \<and> point_state (sequence ! i) = trajectory ! i \<and>
       dom (trajectory ! i) = set DISPLAY_PARAMETER_NAMES \<and>
       (\<forall>axis \<in> set DISPLAY_PARAMETER_NAMES.
          (trajectory ! i) axis =
            Some (float_round ar
              (float_add ar (float_mul ar (the (A axis)) (float_sub ar (Fin 1) (alphas ! i)))
                 (float_mul ar (the (B axis)) (alphas ! i))) 4) \<and>
          (\<forall>a b \<alpha>. rounding ar \<and> A axis = Some (Fin a) \<and> B axis = Some (Fin b) \<and>
               alphas ! i = Fin \<alpha> \<and> 0 \<le> a \<and> a \<le> 1 \<and> 0 \<le> b \<and> b \<le> 1 \<and>
               0 \<le> \<alpha> \<and> \<alpha> \<le> 1 \<longrightarrow>
             (trajectory ! i) axis =
               Some (Fin (nearest ar (py_round
                 (nearest ar (nearest ar (a * nearest ar (1 - \<alpha>)) + nearest ar (b * \<alpha>)))
                 4))))))"
proof -
  have d: "dom (spec_interpolated ar A B alpha) = set DISPLAY_PARAMETER_NAMES" for alpha
    by (auto simp add: spec_interpolated_def split: if_splits)
  have v: "spec_interpolated ar A B alpha axis =
      Some (float_round ar
        (float_add ar (float_mul ar (the (A axis)) (float_sub ar (Fin 1) alpha))
           (float_mul ar (the (B axis)) alpha)) 4)"
    if "axis \<in> set DISPLAY_PARAMETER_NAMES" for alpha axis
    using that by (simp add: spec_interpolated_def)
  have w: "spec_interpolated ar A B alpha axis =
      Some (Fin (nearest ar (py_round
        (nearest ar (nearest ar (a * nearest ar (1 - \<alpha>)) + nearest ar (b * \<alpha>))) 4)))"
    if "axis \<in> set DISPLAY_PARAMETER_NAMES" and "rounding ar"
      and "A axis = Some (Fin a)" and "B axis = Some (Fin b)" and "alpha = Fin \<alpha>"
      and "0 \<le> a" "a \<le> 1" "0 \<le> b" "b \<le> 1" "0 \<le> \<alpha>" "\<alpha> \<le> 1"
    for alpha axis a b \<alpha>
    using v [OF that(1), of alpha] interpolated_value [OF that(2) that(6-11)] that(3-5)
    by simp
  have "spec_interpolated ar A B (alphas ! i) axis =
      Some (float_round ar
        (float_add ar (float_mul ar (the (A axis)) (float_sub ar (Fin 1) (alphas ! i)))
           (float_mul ar (the (B axis)) (alphas ! i))) 4) \<and>
      (\<forall>a b \<alpha>. rounding ar \<and> A axis = Some (Fin a) \<and> B axis = Some (Fin b) \<and>
           alphas ! i = Fin \<alpha> \<and> 0 \<le> a \<and> a \<le> 1 \<and> 0 \<le> b \<and> b \<le> 1 \<and>
           0 \<le> \<alpha> \<and> \<alpha> \<le> 1 \<longrightarrow>
         spec_interpolated ar A B (alphas ! i) axis =
           Some (Fin (nearest ar (py_round
             (nearest ar (nearest ar (a * nearest ar (1 - \<alpha>)) + nearest ar (b * \<alpha>)))
             4))))"
    if "axis \<in> set DISPLAY_PARAMETER_NAMES" for i axis
    using v [OF that] w [OF that] by blast
  then show ?thesis
    unfolding trajectory_loop_complete [OF assms] sequence_loop_complete [OF assms]
    by (simp add: length_py_enumerate py_enumerate_nth spec_point_def d) blast
qed


text \<open>An instance in the arithmetic that does not round: from \<open>luxury_isolation\<close> to
  \<open>theatrical_drama\<close> at the blend weights 0.1234 and 1. At 0.1234 the first axis is
  \<open>0.10 * 0.8766 + 0.55 * 0.1234 = 0.15553\<close>, reported as 0.1555.\<close>

lemma nearest_exact_arith: "nearest exact_arith x = x"
  by (simp add: exact_arith_def)

theorem interpolation_formula_witness:
  "\<exists>trajectory sequence.
    trajectory_loop exact_arith
      [''compositional_tension'' \<mapsto> Fin 0.10, ''depth_complexity'' \<mapsto> Fin 0.40,
       ''lighting_drama'' \<mapsto> Fin 0.35, ''viewing_intimacy'' \<mapsto> Fin 0.85,
       ''negative_space_ratio'' \<mapsto> Fin 0.90]
      [''compositional_tension'' \<mapsto> Fin 0.55, ''depth_complexity'' \<mapsto> Fin 0.85,
       ''lighting_drama'' \<mapsto> Fin 0.90, ''viewing_intimacy'' \<mapsto> Fin 0.50,
       ''negative_space_ratio'' \<mapsto> Fin 0.40] [Fin 0.1234, Fin 1] [] = Inr trajectory \<and>
    sequence_loop exact_arith
      [''compositional_tension'' \<mapsto> Fin 0.10, ''depth_complexity'' \<mapsto> Fin 0.40,
       ''lighting_drama'' \<mapsto> Fin 0.35, ''viewing_intimacy'' \<mapsto> Fin 0.85,
       ''negative_space_ratio'' \<mapsto> Fin 0.90]
      [''compositional_tension'' \<mapsto> Fin 0.55, ''depth_complexity'' \<mapsto> Fin 0.85,
       ''lighting_drama'' \<mapsto> Fin 0.90, ''viewing_intimacy'' \<mapsto> Fin 0.50,
       ''negative_space_ratio'' \<mapsto> Fin 0.40]
      (py_enumerate [Fin 0.1234, Fin 1]) [] = Inr sequence \<and>
    length trajectory = 2 \<and> length sequence = 2 \<and>
    point_step (sequence ! 0) = 0 \<and> point_state (sequence ! 0) = trajectory ! 0 \<and>
    (trajectory ! 0) ''compositional_tension'' = Some (Fin 0.1555) \<and>
    (trajectory ! 1) ''depth_complexity'' = Some (Fin 0.85)"
proof -
  let ?A = "[''compositional_tension'' \<mapsto> Fin 0.10, ''depth_complexity'' \<mapsto> Fin 0.40,
       ''lighting_drama'' \<mapsto> Fin 0.35, ''viewing_intimacy'' \<mapsto> Fin 0.85,
       ''negative_space_ratio'' \<mapsto> Fin 0.90]"
  let ?B = "[''compositional_tension'' \<mapsto> Fin 0.55, ''depth_complexity'' \<mapsto> Fin 0.85,
       ''lighting_drama'' \<mapsto> Fin 0.90, ''viewing_intimacy'' \<mapsto> Fin 0.50,
       ''negative_space_ratio'' \<mapsto> Fin 0.40]"
  let ?alphas = "[Fin 0.1234, Fin 1]"
  have a: "set DISPLAY_PARAMETER_NAMES \<subseteq> dom ?A"
    by (simp add: DISPLAY_PARAMETER_NAMES_def)
  have b: "set DISPLAY_PARAMETER_NAMES \<subseteq> dom ?B"
    by (simp add: DISPLAY_PARAMETER_NAMES_def)
  have r1: "py_round (15553 / 100000) 4 = 1555 / 10000" and r2: "py_round (17 / 20) 4 = 17 / 20"
    by (simp_all add: py_round_def round_half_even_def)
  obtain trajectory sequence where h:
    "trajectory_loop exact_arith ?A ?B ?alphas [] = Inr trajectory"
    "sequence_loop exact_arith ?A ?B (py_enumerate ?alphas) [] = Inr sequence"
    "length trajectory = length ?alphas" "length sequence = length ?alphas"
    "\<forall>i < length ?alphas.
       point_step (sequence ! i) = int i \<and> point_state (sequence ! i) = trajectory ! i \<and>
       dom (trajectory ! i) = set DISPLAY_PARAMETER_NAMES \<and>
       (\<forall>axis \<in> set DISPLAY_PARAMETER_NAMES.
          (trajectory ! i) axis =
            Some (float_round exact_arith
              (float_add exact_arith
                 (float_mul exact_arith (the (?A axis)) (float_sub exact_arith (Fin 1) (?alphas ! i)))
                 (float_mul exact_arith (the (?B axis)) (?alphas ! i))) 4) \<and>
          (\<forall>a b \<alpha>. rounding exact_arith \<and> ?A axis = Some (Fin a) \<and> ?B axis = Some (Fin b) \<and>
               ?alphas ! i = Fin \<alpha> \<and> 0 \<le> a \<and> a \<le> 1 \<and> 0 \<le> b \<and> b \<le> 1 \<and>
               0 \<le> \<alpha> \<and> \<alpha> \<le> 1 \<longrightarrow>
             (trajectory ! i) axis =
               Some (Fin (nearest exact_arith (py_round
                 (nearest exact_arith (nearest exact_arith (a * nearest exact_arith (1 - \<alpha>)) +
                    nearest exact_arith (b * \<alpha>)))
                 4)))))"
    using interpolation_formula [OF a b, of exact_arith ?alphas] by blast
  have ct: "''compositional_tension'' \<in> set DISPLAY_PARAMETER_NAMES"
    and dc: "''depth_complexity'' \<in> set DISPLAY_PARAMETER_NAMES"
    by (simp_all add: DISPLAY_PARAMETER_NAMES_def)
  have l0: "0 < length ?alphas" and l1: "1 < length ?alphas"
    by simp_all
  note p0 = h(5) [rule_format, OF l0] and p1 = h(5) [rule_format, OF l1]
  from p0 have s0: "point_step (sequence ! 0) = 0 \<and> point_state (sequence ! 0) = trajectory ! 0"
    by simp
  note v0 = p0 [THEN conjunct2, THEN conjunct2, THEN conjunct2, THEN bspec, OF ct,
      THEN conjunct2, rule_format, of "0.10" "0.55" "0.1234"]
  have "(trajectory ! 0) ''compositional_tension'' =
      Some (Fin (nearest exact_arith (py_round
        (nearest exact_arith (nearest exact_arith (0.10 * nearest exact_arith (1 - 0.1234)) +
           nearest exact_arith (0.55 * 0.1234)))
        4)))"
    by (rule v0) (simp add: rounding_exact_arith)
  then have i0: "(trajectory ! 0) ''compositional_tension'' = Some (Fin 0.1555)"
    by (simp add: nearest_exact_arith r1)
  note v1 = p1 [THEN conjunct2, THEN conjunct2, THEN conjunct2, THEN bspec, OF dc,
      THEN conjunct2, rule_format, of "0.40" "0.85" 1]
  have "(trajectory ! 1) ''depth_complexity'' =
      Some (Fin (nearest exact_arith (py_round
        (nearest exact_arith (nearest exact_arith (0.40 * nearest exact_arith (1 - 1)) +
           nearest exact_arith (0.85 * 1)))
        4)))"
    by (rule v1) (simp add: rounding_exact_arith)
  then have i1: "(trajectory ! 1) ''depth_complexity'' = Some (Fin 0.85)"
    by (simp add: nearest_exact_arith r2)
  show ?thesis
    using h(1-4) s0 i0 i1 by simp
qed


section \<open>The waveform loop\<close>

lemma oscillation_loop_values:
  assumes "\<forall>i \<in> set idxs. oscillation_value ar n c p i = Inr (f i)"
  shows "oscillation_loop ar n c p idxs acc = Inr (acc @ map f idxs)"
  using assms by (induction idxs arbitrary: acc) simp_all

lemma py_range_empty: "n \<le> 0 \<Longrightarrow> py_range n = []"
  by (simp add: py_range_def)

lemma py_range_members: "i \<in> set (py_range n) \<longleftrightarrow> 0 \<le> i \<and> i < n"
  by (auto simp add: py_range_def)

lemma generate_oscillation_empty:
  "n \<le> 0 \<Longrightarrow> generate_oscillation ar n c p = Inr []"
  by (simp add: generate_oscillation_def py_range_empty)

lemma generate_oscillation_values:
  assumes "\<forall>i. 0 \<le> i \<and> i < n \<longrightarrow> oscillation_value ar n c p i = Inr (f i)"
  shows "generate_oscillation ar n c p = Inr (map f (py_range n))"
  unfolding generate_oscillation_def
  using oscillation_loop_values [of "py_range n" ar n c p f "[]"] assms
  by (simp add: py_range_members)

lemma float_truediv_nonzero:
  assumes "y \<noteq> 0"
  shows "\<exists>t. float_truediv ar x (Fin y) = Inr t"
  using assms by (cases x) simp_all

text \<open>With an unrecognized pattern only the phase is computed, and it is not used: the
  value is 0.5 as soon as the three integer operands convert to floats.\<close>

lemma oscillation_value_other:
  assumes "pattern \<notin> {''sinusoidal'', ''triangular'', ''square''}"
    and "rounding ar" and "to_float ar num_cycles = Inr c"
    and "0 \<le> i" and "i < n" and "n \<le> 2 ^ 53"
  shows "oscillation_value ar n num_cycles pattern i = Inr (Fin (1 / 2))"
proof -
  have i: "float_of_int ar i = Inr (Fin (of_int i))"
    using assms(4-6) by (intro float_of_int_exact [OF assms(2)]) simp
  have n: "float_of_int ar n = Inr (Fin (of_int n))"
    using assms(4-6) by (intro float_of_int_exact [OF assms(2)]) simp
  have "(of_int n :: real) \<noteq> 0"
    using assms(4,5) by simp
  then obtain t where
    "float_truediv ar
       (float_mul ar (float_mul ar (float_mul ar (Fin 2) (math_pi ar)) c) (Fin (of_int i)))
       (Fin (of_int n)) = Inr t"
    using float_truediv_nonzero by blast
  then show ?thesis
    using assms(1) by (simp add: oscillation_value_def assms(3) i n)
qed

lemma generate_oscillation_other:
  assumes "pattern \<notin> {''sinusoidal'', ''triangular'', ''square''}"
    and "rounding ar" and "to_float ar num_cycles = Inr c" and "n \<le> 2 ^ 53"
  shows "generate_oscillation ar n num_cycles pattern = Inr (replicate (nat n) (Fin (1 / 2)))"
proof -
  have "generate_oscillation ar n num_cycles pattern =
      Inr (map (\<lambda>_. Fin (1 / 2)) (py_range n))"
    by (rule generate_oscillation_values) (simp add: oscillation_value_other [OF assms(1-3) _ _ assms(4)])
  then show ?thesis
    by (simp only: map_replicate_const length_py_range)
qed

lemma to_float_cases:
  assumes "rounding ar"
    and "(\<exists>x. num_cycles = FloatNum x) \<or> (\<exists>k. num_cycles = IntNum k \<and> \<bar>k\<bar> \<le> 2 ^ 53)"
  shows "\<exists>c. to_float ar num_cycles = Inr c"
  using assms(2) float_of_int_exact [OF assms(1)] by auto

section \<open>The sequence tool on registered states\<close>

lemma rhythmic_sequence_registered:
  assumes "map_of DISPLAY_STATE_COORDINATES a = Some A"
    and "map_of DISPLAY_STATE_COORDINATES b = Some B"
    and "generate_oscillation ar (nc * spc) (IntNum nc) pat = Inr alphas"
    and "apply_phase_offset ar alphas po spc = Inr rotated"
  shows "generate_display_rhythmic_sequence ar a b pat nc spc po =
    Inr \<lparr>seq_state_a = a, seq_state_b = b, seq_pattern = pat, seq_num_cycles = nc,
         seq_steps_per_cycle = spc, seq_total_steps = nc * spc, seq_period = spc,
         seq_phase_offset = po,
         seq_sequence = map (spec_point ar (float_coords ar A) (float_coords ar B))
           (py_enumerate rotated)\<rparr>"
proof -
  note dA = float_coords_registered [OF assms(1), of ar]
  note dB = float_coords_registered [OF assms(2), of ar]
  show ?thesis
    unfolding generate_display_rhythmic_sequence_def Let_def
    by (simp add: assms getitem_Some sequence_loop_complete [OF dA dB])
qed

lemma apply_phase_offset_none:
  "\<not> float_lt (Fin 0) po \<Longrightarrow> apply_phase_offset ar alphas po spc = Inr alphas"
  by (simp add: apply_phase_offset_def)

lemma phases_of_sequence:
  "map (point_phase \<circ> spec_point ar A B) (py_enumerate xs) = map (\<lambda>x. float_round ar x 4) xs"
  by (rule nth_equalityI) (simp_all add: length_py_enumerate py_enumerate_nth spec_point_def)

lemma py_round_half: "py_round (1 / 2) 4 = 1 / 2"
  by (simp add: py_round_def round_half_even_def)

lemma float_round_half:
  assumes "rounding ar"
  shows "float_round ar (Fin (1 / 2)) 4 = Fin (1 / 2)"
proof -
  have "fl ar (1 / 2) = Fin (nearest ar (1 / 2))"
    using fl_between [OF assms, of 0 "1 / 2" 1] by simp
  then show ?thesis
    using assms by (simp add: py_round_half rounding_def)
qed


section \<open>Cycle configuration\<close>

lemma rhythmic_sequence_empty:
  assumes "map_of DISPLAY_STATE_COORDINATES a = Some A"
    and "map_of DISPLAY_STATE_COORDINATES b = Some B"
    and "nc * spc \<le> 0" and "\<not> float_lt (Fin 0) po"
  shows "generate_display_rhythmic_sequence ar a b pat nc spc po =
    Inr \<lparr>seq_state_a = a, seq_state_b = b, seq_pattern = pat, seq_num_cycles = nc,
         seq_steps_per_cycle = spc, seq_total_steps = nc * spc, seq_period = spc,
         seq_phase_offset = po, seq_sequence = []\<rparr>"
  using rhythmic_sequence_registered [OF assms(1,2) generate_oscillation_empty [OF assms(3)]
      apply_phase_offset_none [OF assms(4)]]
  by (simp add: py_enumerate_def py_range_empty)

lemma luxury_isolation_registered:
  "map_of DISPLAY_STATE_COORDINATES ''luxury_isolation'' =
     Some [''compositional_tension'' \<mapsto> 0.10, ''depth_complexity'' \<mapsto> 0.40,
           ''lighting_drama'' \<mapsto> 0.35, ''viewing_intimacy'' \<mapsto> 0.85,
           ''negative_space_ratio'' \<mapsto> 0.90]"
  by (simp add: DISPLAY_STATE_COORDINATES_def)

lemma theatrical_drama_registered:
  "map_of DISPLAY_STATE_COORDINATES ''theatrical_drama'' =
     Some [''compositional_tension'' \<mapsto> 0.55, ''depth_complexity'' \<mapsto> 0.85,
           ''lighting_drama'' \<mapsto> 0.90, ''viewing_intimacy'' \<mapsto> 0.50,
           ''negative_space_ratio'' \<mapsto> 0.40]"
  by (simp add: DISPLAY_STATE_COORDINATES_def)

text \<open>
  Claim C8, as stated, fails: with \<open>num_cycles = 0\<close> the request is not rejected; it
  returns a zero-length sequence as a success. No float is computed on the way.
\<close>

theorem cycle_config_counterexample:
  "generate_display_rhythmic_sequence exact_arith ''luxury_isolation'' ''theatrical_drama''
       ''sinusoidal'' 0 20 (Fin 0) =
     Inr \<lparr>seq_state_a = ''luxury_isolation'', seq_state_b = ''theatrical_drama'',
          seq_pattern = ''sinusoidal'', seq_num_cycles = 0, seq_steps_per_cycle = 20,
          seq_total_steps = 0, seq_period = 20, seq_phase_offset = Fin 0,
          seq_sequence = []\<rparr>"
  using rhythmic_sequence_empty [OF luxury_isolation_registered theatrical_drama_registered,
      of 0 20 "Fin 0" exact_arith "''sinusoidal''"]
  by simp

text \<open>
  Claim C8, amended. The sequence tool validates its two state identifiers, and nothing
  else, before it computes anything: an unregistered identifier fails with the
  unknown-state error. There is no check of the cycle configuration: with two registered
  identifiers, a product \<open>num_cycles * steps_per_cycle\<close> that is not positive and a phase
  offset that is not positive, the call succeeds in every arithmetic; the result carries
  \<open>total_steps = num_cycles * steps_per_cycle\<close> and an empty sequence.
\<close>

theorem cycle_config_not_validated:
  "(map_of DISPLAY_STATE_COORDINATES a = None \<longrightarrow>
      generate_display_rhythmic_sequence ar a b pattern num_cycles steps_per_cycle phase_offset
        = Inl (UnknownState a)) \<and>
   (map_of DISPLAY_STATE_COORDINATES a \<noteq> None \<and> map_of DISPLAY_STATE_COORDINATES b = None \<longrightarrow>
      generate_display_rhythmic_sequence ar a b pattern num_cycles steps_per_cycle phase_offset
        = Inl (UnknownState b)) \<and>
   (map_of DISPLAY_STATE_COORDINATES a \<noteq> None \<and> map_of DISPLAY_STATE_COORDINATES b \<noteq> None \<and>
    num_cycles * steps_per_cycle \<le> 0 \<and> \<not> float_lt (Fin 0) phase_offset \<longrightarrow>
      generate_display_rhythmic_sequence ar a b pattern num_cycles steps_per_cycle phase_offset
        = Inr \<lparr>seq_state_a = a, seq_state_b = b, seq_pattern = pattern,
               seq_num_cycles = num_cycles, seq_steps_per_cycle = steps_per_cycle,
               seq_total_steps = num_cycles * steps_per_cycle, seq_period = steps_per_cycle,
               seq_phase_offset = phase_offset, seq_sequence = []\<rparr>)"
proof (intro conjI impI)
  assume "map_of DISPLAY_STATE_COORDINATES a = None"
  then show "generate_display_rhythmic_sequence ar a b pattern num_cycles steps_per_cycle
      phase_offset = Inl (UnknownState a)"
    by (simp add: generate_display_rhythmic_sequence_def)
next
  assume "map_of DISPLAY_STATE_COORDINATES a \<noteq> None \<and> map_of DISPLAY_STATE_COORDINATES b = None"
  then show "generate_display_rhythmic_sequence ar a b pattern num_cycles steps_per_cycle
      phase_offset = Inl (UnknownState b)"
    by (auto simp add: generate_display_rhythmic_sequence_def)
next
  assume h: "map_of DISPLAY_STATE_COORDINATES a \<noteq> None \<and>
    map_of DISPLAY_STATE_COORDINATES b \<noteq> None \<and>
    num_cycles * steps_per_cycle \<le> 0 \<and> \<not> float_lt (Fin 0) phase_offset"
  then obtain A B where ab: "map_of DISPLAY_STATE_COORDINATES a = Some A"
      "map_of DISPLAY_STATE_COORDINATES b = Some B"
    by auto
  from h have c: "num_cycles * steps_per_cycle \<le> 0" and p: "\<not> float_lt (Fin 0) phase_offset"
    by simp_all
  show "generate_display_rhythmic_sequence ar a b pattern num_cycles steps_per_cycle phase_offset
      = Inr \<lparr>seq_state_a = a, seq_state_b = b, seq_pattern = pattern,
             seq_num_cycles = num_cycles, seq_steps_per_cycle = steps_per_cycle,
             seq_total_steps = num_cycles * steps_per_cycle, seq_period = steps_per_cycle,
             seq_phase_offset = phase_offset, seq_sequence = []\<rparr>"
    by (rule rhythmic_sequence_empty [OF ab c p])
qed

theorem cycle_config_not_validated_witness:
  "generate_display_rhythmic_sequence exact_arith ''no_such_state'' ''theatrical_drama''
       ''sinusoidal'' 3 20 (Fin 0)
     = Inl (UnknownState ''no_such_state'') \<and>
   generate_display_rhythmic_sequence exact_arith ''luxury_isolation'' ''no_such_state''
       ''sinusoidal'' 3 20 (Fin 0)
     = Inl (UnknownState ''no_such_state'') \<and>
   generate_display_rhythmic_sequence exact_arith ''luxury_isolation'' ''theatrical_drama''
       ''sinusoidal'' (- 1) 20 NaN
     = Inr \<lparr>seq_state_a = ''luxury_isolation'', seq_state_b = ''theatrical_drama'',
            seq_pattern = ''sinusoidal'', seq_num_cycles = - 1, seq_steps_per_cycle = 20,
            seq_total_steps = - 20, seq_period = 20, seq_phase_offset = NaN,
            seq_sequence = []\<rparr>"
proof -
  have n: "map_of DISPLAY_STATE_COORDINATES ''no_such_state'' = None"
    by (simp add: DISPLAY_STATE_COORDINATES_def)
  have a: "map_of DISPLAY_STATE_COORDINATES ''luxury_isolation'' \<noteq> None"
    by (simp add: luxury_isolation_registered)
  have b: "map_of DISPLAY_STATE_COORDINATES ''theatrical_drama'' \<noteq> None"
    by (simp add: theatrical_drama_registered)
  show ?thesis
    using cycle_config_not_validated [of "''no_such_state''" exact_arith "''theatrical_drama''"
        "''sinusoidal''" 3 20 "Fin 0"]
      cycle_config_not_validated [of "''luxury_isolation''" exact_arith "''no_such_state''"
        "''sinusoidal''" 3 20 "Fin 0"]
      cycle_config_not_validated [of "''luxury_isolation''" exact_arith "''theatrical_drama''"
        "''sinusoidal''" "- 1" 20 NaN]
      n a b
    by simp
qed

section \<open>Unrecognized patterns\<close>

lemma slices_replicate:
  "slice_from (replicate n x) k @ slice_to (replicate n x) k = replicate n x"
proof -
  have "drop j (replicate n x) @ take j (replicate n x) = replicate n x" for j
    by (metis append_take_drop_id length_append length_drop length_replicate length_take
        add.commute replicate_add drop_replicate take_replicate)
  then show ?thesis
    by (simp add: slice_from_def slice_to_def del: drop_replicate take_replicate)
qed

lemma fl_magnitude:
  assumes "rounding ar" and "\<bar>x\<bar> \<le> 2 ^ 53"
  shows "fl ar x = Fin (nearest ar x)"
proof -
  have "of_int (- (2 ^ 53)) \<le> x" and "x \<le> of_int (2 ^ 53)"
    using assms(2) by simp_all
  then show ?thesis
    using fl_between [OF assms(1), of "- (2 ^ 53)" x "2 ^ 53"] by simp
qed

text \<open>The offset computation on a positive finite phase offset, where the operands are
  of moderate size: the float product, truncated.\<close>

lemma apply_phase_offset_finite:
  assumes "rounding ar" and "0 < q" and "\<bar>spc\<bar> \<le> 2 ^ 53" and "\<bar>q * of_int spc\<bar> \<le> 2 ^ 53"
  shows "apply_phase_offset ar alphas (Fin q) spc =
    Inr (slice_from alphas (truncation (nearest ar (q * of_int spc))) @
         slice_to alphas (truncation (nearest ar (q * of_int spc))))"
  using assms(2)
  by (simp add: apply_phase_offset_def float_of_int_exact [OF assms(1,3)]
      fl_magnitude [OF assms(1,4)])

lemma apply_phase_offset_replicate:
  assumes "rounding ar"
    and "\<not> float_lt (Fin 0) po \<or> (\<exists>q. po = Fin q \<and> \<bar>spc\<bar> \<le> 2 ^ 53 \<and> \<bar>q * of_int spc\<bar> \<le> 2 ^ 53)"
  shows "apply_phase_offset ar (replicate n x) po spc = Inr (replicate n x)"
proof (cases "float_lt (Fin 0) po")
  case False
  then show ?thesis
    by (rule apply_phase_offset_none)
next
  case True
  with assms(2) obtain q where q: "po = Fin q" "\<bar>spc\<bar> \<le> 2 ^ 53" "\<bar>q * of_int spc\<bar> \<le> 2 ^ 53"
    by blast
  with True have "0 < q"
    by simp
  then show ?thesis
    unfolding q(1) apply_phase_offset_finite [OF assms(1) \<open>0 < q\<close> q(2,3)]
    by (simp only: slices_replicate)
qed

lemma unrecognized_pattern_sequence:
  assumes "pattern \<notin> {''sinusoidal'', ''triangular'', ''square''}" and "rounding ar"
    and "map_of DISPLAY_STATE_COORDINATES a = Some A"
    and "map_of DISPLAY_STATE_COORDINATES b = Some B"
    and "\<bar>nc\<bar> \<le> 2 ^ 53" and "nc * spc \<le> 2 ^ 53"
    and "\<not> float_lt (Fin 0) po \<or> (\<exists>q. po = Fin q \<and> \<bar>spc\<bar> \<le> 2 ^ 53 \<and> \<bar>q * of_int spc\<bar> \<le> 2 ^ 53)"
  shows "\<exists>r. generate_display_rhythmic_sequence ar a b pattern nc spc po = Inr r \<and>
    map point_phase (seq_sequence r) = replicate (nat (nc * spc)) (Fin (1 / 2))"
proof -
  have c: "to_float ar (IntNum nc) = Inr (Fin (of_int nc))"
    by (simp add: float_of_int_exact [OF assms(2,5)])
  note osc = generate_oscillation_other [OF assms(1,2) c assms(6)]
  note off = apply_phase_offset_replicate [OF assms(2,7), of "nat (nc * spc)" "Fin (1 / 2)"]
  show ?thesis
    unfolding rhythmic_sequence_registered [OF assms(3,4) osc off]
    using float_round_half [OF assms(2)] by (simp add: phases_of_sequence)
qed

text \<open>
  Claim C1, as stated, fails: an unrecognized pattern is not rejected. With the pattern
  \<open>sawtooth\<close> the generator returns the flat sequence of 0.5, and the sequence tool
  returns a successful result whose phases are that sequence.
\<close>

theorem invalid_pattern_counterexample:
  "generate_oscillation exact_arith 3 (IntNum 1) ''sawtooth'' =
     Inr [Fin (1 / 2), Fin (1 / 2), Fin (1 / 2)] \<and>
   map_sum id (map point_phase \<circ> seq_sequence)
     (generate_display_rhythmic_sequence exact_arith ''luxury_isolation'' ''theatrical_drama''
        ''sawtooth'' 1 3 (Fin 0)) =
     Inr [Fin (1 / 2), Fin (1 / 2), Fin (1 / 2)]"
proof -
  have p: "''sawtooth'' \<notin> {''sinusoidal'', ''triangular'', ''square''}"
    by simp
  have c: "to_float exact_arith (IntNum 1) = Inr (Fin (of_int 1))"
    by (simp add: float_of_int_exact [OF rounding_exact_arith])
  have three: "replicate 3 (Fin (1 / 2)) = [Fin (1 / 2), Fin (1 / 2), Fin (1 / 2)]"
    by (simp add: numeral_3_eq_3)
  have "generate_oscillation exact_arith 3 (IntNum 1) ''sawtooth'' =
      Inr (replicate (nat 3) (Fin (1 / 2)))"
    by (rule generate_oscillation_other [OF p rounding_exact_arith c]) simp
  moreover obtain r where
    "generate_display_rhythmic_sequence exact_arith ''luxury_isolation'' ''theatrical_drama''
        ''sawtooth'' 1 3 (Fin 0) = Inr r"
    and "map point_phase (seq_sequence r) = replicate (nat (1 * 3)) (Fin (1 / 2))"
    using unrecognized_pattern_sequence [OF p rounding_exact_arith luxury_isolation_registered
        theatrical_drama_registered, of 1 3 "Fin 0"]
    by auto
  ultimately show ?thesis
    by (simp add: three)
qed

text \<open>
  Claim C1, amended. A pattern other than the three recognized ones is not an error. Where
  the arithmetic rounds as doubles do and the integer operands of the phase convert to
  floats (\<open>num_steps\<close> up to \<open>2 ^ 53\<close>; \<open>num_cycles\<close> any float, or an integer of magnitude up to
  \<open>2 ^ 53\<close>), the generator returns \<open>num_steps\<close> values, each 0.5. The sequence tool, given
  two registered states, such a cycle configuration, and a phase offset that is not
  positive or whose product with \<open>steps_per_cycle\<close> has magnitude up to \<open>2 ^ 53\<close>, returns a
  successful result whose phases are all 0.5.
\<close>

theorem unrecognized_pattern_flat:
  assumes "pattern \<notin> {''sinusoidal'', ''triangular'', ''square''}" and "rounding ar"
  shows "(num_steps \<le> 2 ^ 53 \<and>
          ((\<exists>x. num_cycles = FloatNum x) \<or> (\<exists>k. num_cycles = IntNum k \<and> \<bar>k\<bar> \<le> 2 ^ 53)) \<longrightarrow>
            generate_oscillation ar num_steps num_cycles pattern =
              Inr (replicate (nat num_steps) (Fin (1 / 2)))) \<and>
         (map_of DISPLAY_STATE_COORDINATES a \<noteq> None \<and> map_of DISPLAY_STATE_COORDINATES b \<noteq> None \<and>
          \<bar>nc\<bar> \<le> 2 ^ 53 \<and> nc * spc \<le> 2 ^ 53 \<and>
          (\<not> float_lt (Fin 0) po \<or>
           (\<exists>q. po = Fin q \<and> \<bar>spc\<bar> \<le> 2 ^ 53 \<and> \<bar>q * of_int spc\<bar> \<le> 2 ^ 53)) \<longrightarrow>
            (\<exists>r. generate_display_rhythmic_sequence ar a b pattern nc spc po = Inr r \<and>
               map point_phase (seq_sequence r) = replicate (nat (nc * spc)) (Fin (1 / 2))))"
proof (intro conjI impI)
  assume h: "num_steps \<le> 2 ^ 53 \<and>
    ((\<exists>x. num_cycles = FloatNum x) \<or> (\<exists>k. num_cycles = IntNum k \<and> \<bar>k\<bar> \<le> 2 ^ 53))"
  then obtain c where c: "to_float ar num_cycles = Inr c"
    using to_float_cases [OF assms(2)] by blast
  from h have n: "num_steps \<le> 2 ^ 53"
    by simp
  show "generate_oscillation ar num_steps num_cycles pattern =
      Inr (replicate (nat num_steps) (Fin (1 / 2)))"
    by (rule generate_oscillation_other [OF assms c n])
next
  assume h: "map_of DISPLAY_STATE_COORDINATES a \<noteq> None \<and>
    map_of DISPLAY_STATE_COORDINATES b \<noteq> None \<and> \<bar>nc\<bar> \<le> 2 ^ 53 \<and> nc * spc \<le> 2 ^ 53 \<and>
    (\<not> float_lt (Fin 0) po \<or>
     (\<exists>q. po = Fin q \<and> \<bar>spc\<bar> \<le> 2 ^ 53 \<and> \<bar>q * of_int spc\<bar> \<le> 2 ^ 53))"
  then obtain A B where ab: "map_of DISPLAY_STATE_COORDINATES a = Some A"
      "map_of DISPLAY_STATE_COORDINATES b = Some B"
    by auto
  from h have k: "\<bar>nc\<bar> \<le> 2 ^ 53" "nc * spc \<le> 2 ^ 53"
    and p: "\<not> float_lt (Fin 0) po \<or>
      (\<exists>q. po = Fin q \<and> \<bar>spc\<bar> \<le> 2 ^ 53 \<and> \<bar>q * of_int spc\<bar> \<le> 2 ^ 53)"
    by simp_all
  show "\<exists>r. generate_display_rhythmic_sequence ar a b pattern nc spc po = Inr r \<and>
      map point_phase (seq_sequence r) = replicate (nat (nc * spc)) (Fin (1 / 2))"
    by (rule unrecognized_pattern_sequence [OF assms ab k p])
qed

theorem unrecognized_pattern_flat_witness:
  "generate_oscillation exact_arith 2 (FloatNum PInf) ''sawtooth'' =
     Inr (replicate 2 (Fin (1 / 2))) \<and>
   (\<exists>r. generate_display_rhythmic_sequence exact_arith ''luxury_isolation'' ''theatrical_drama''
          ''zigzag'' 2 3 (Fin (5 / 2)) = Inr r \<and>
        map point_phase (seq_sequence r) = replicate 6 (Fin (1 / 2)))"
proof -
  have p: "''sawtooth'' \<notin> {''sinusoidal'', ''triangular'', ''square''}"
    and p': "''zigzag'' \<notin> {''sinusoidal'', ''triangular'', ''square''}"
    by simp_all
  have a: "map_of DISPLAY_STATE_COORDINATES ''luxury_isolation'' \<noteq> None"
    by (simp add: luxury_isolation_registered)
  have b: "map_of DISPLAY_STATE_COORDINATES ''theatrical_drama'' \<noteq> None"
    by (simp add: theatrical_drama_registered)
  have q: "\<exists>q. Fin (5 / 2) = Fin q \<and> \<bar>3 :: int\<bar> \<le> 2 ^ 53 \<and> \<bar>q * of_int 3\<bar> \<le> 2 ^ 53"
    by (rule exI [of _ "5 / 2"]) simp
  have g: "generate_oscillation exact_arith 2 (FloatNum PInf) ''sawtooth'' =
     Inr (replicate (nat 2) (Fin (1 / 2)))"
    using unrecognized_pattern_flat [OF p rounding_exact_arith, of 2 "FloatNum PInf",
        THEN conjunct1]
    by simp
  have "\<exists>r. generate_display_rhythmic_sequence exact_arith ''luxury_isolation''
          ''theatrical_drama'' ''zigzag'' 2 3 (Fin (5 / 2)) = Inr r \<and>
        map point_phase (seq_sequence r) = replicate (nat (2 * 3)) (Fin (1 / 2))"
    using unrecognized_pattern_flat [OF p' rounding_exact_arith,
        of _ _ "''luxury_isolation''" "''theatrical_drama''" 2 3 "Fin (5 / 2)", THEN conjunct2]
      a b q
    by simp
  with g show ?thesis
    by simp
qed


section \<open>Nearest-neighbour search\<close>

lemma nearest_loop_from_finite:
  "(nearest_loop state ts (Finite m) (Some n) = (Finite m, Some n) \<and>
      (\<forall>y \<in> set ts. m \<le> type_distance state (snd y))) \<or>
   (\<exists>pre x post. ts = pre @ x # post \<and>
      nearest_loop state ts (Finite m) (Some n) =
        (Finite (type_distance state (snd x)), Some (fst x)) \<and>
      type_distance state (snd x) < m \<and>
      (\<forall>y \<in> set pre. type_distance state (snd x) < type_distance state (snd y)) \<and>
      (\<forall>y \<in> set post. type_distance state (snd x) \<le> type_distance state (snd y)))"
proof (induction ts arbitrary: m n)
  case Nil
  show ?case by simp
next
  case (Cons t ts)
  obtain name td where t: "t = (name, td)"
    by (cases t)
  let ?d = "\<lambda>y. type_distance state (snd y)"
  let ?dt = "type_distance state td"
  show ?case
  proof (cases "?dt < m")
    case True
    then have step: "nearest_loop state (t # ts) (Finite m) (Some n) =
        nearest_loop state ts (Finite ?dt) (Some name)"
      by (simp add: t Let_def)
    from Cons.IH [of ?dt name] show ?thesis
    proof (elim disjE exE conjE)
      assume "nearest_loop state ts (Finite ?dt) (Some name) = (Finite ?dt, Some name)"
        and "\<forall>y \<in> set ts. ?dt \<le> ?d y"
      then have "t # ts = [] @ t # ts \<and>
          nearest_loop state (t # ts) (Finite m) (Some n) = (Finite (?d t), Some (fst t)) \<and>
          ?d t < m \<and> (\<forall>y \<in> set []. ?d t < ?d y) \<and> (\<forall>y \<in> set ts. ?d t \<le> ?d y)"
        using True step by (simp add: t)
      then show ?thesis
        by blast
    next
      fix pre x post
      assume "ts = pre @ x # post"
        and "nearest_loop state ts (Finite ?dt) (Some name) = (Finite (?d x), Some (fst x))"
        and "?d x < ?dt"
        and "\<forall>y \<in> set pre. ?d x < ?d y"
        and "\<forall>y \<in> set post. ?d x \<le> ?d y"
      then have "t # ts = (t # pre) @ x # post \<and>
          nearest_loop state (t # ts) (Finite m) (Some n) = (Finite (?d x), Some (fst x)) \<and>
          ?d x < m \<and> (\<forall>y \<in> set (t # pre). ?d x < ?d y) \<and> (\<forall>y \<in> set post. ?d x \<le> ?d y)"
        using True step by (simp add: t)
      then show ?thesis
        by blast
    qed
  next
    case False
    then have step: "nearest_loop state (t # ts) (Finite m) (Some n) =
        nearest_loop state ts (Finite m) (Some n)"
      by (simp add: t Let_def)
    from Cons.IH [of m n] show ?thesis
    proof (elim disjE exE conjE)
      assume "nearest_loop state ts (Finite m) (Some n) = (Finite m, Some n)"
        and "\<forall>y \<in> set ts. m \<le> ?d y"
      then have "nearest_loop state (t # ts) (Finite m) (Some n) = (Finite m, Some n) \<and>
          (\<forall>y \<in> set (t # ts). m \<le> ?d y)"
        using False step by (simp add: t)
      then show ?thesis
        by blast
    next
      fix pre x post
      assume "ts = pre @ x # post"
        and "nearest_loop state ts (Finite m) (Some n) = (Finite (?d x), Some (fst x))"
        and "?d x < m"
        and "\<forall>y \<in> set pre. ?d x < ?d y"
        and "\<forall>y \<in> set post. ?d x \<le> ?d y"
      then have "t # ts = (t # pre) @ x # post \<and>
          nearest_loop state (t # ts) (Finite m) (Some n) = (Finite (?d x), Some (fst x)) \<and>
          ?d x < m \<and> (\<forall>y \<in> set (t # pre). ?d x < ?d y) \<and> (\<forall>y \<in> set post. ?d x \<le> ?d y)"
        using False step by (simp add: t)
      then show ?thesis
        by blast
    qed
  qed
qed

lemma nearest_loop_first_min:
  assumes "ts \<noteq> []"
  shows "\<exists>pre x post. ts = pre @ x # post \<and>
      nearest_loop state ts PosInf None = (Finite (type_distance state (snd x)), Some (fst x)) \<and>
      (\<forall>y \<in> set pre. type_distance state (snd x) < type_distance state (snd y)) \<and>
      (\<forall>y \<in> set post. type_distance state (snd x) \<le> type_distance state (snd y))"
proof -
  obtain t rest where ts: "ts = t # rest"
    using assms by (cases ts) simp_all
  obtain name td where t: "t = (name, td)"
    by (cases t)
  let ?d = "\<lambda>y. type_distance state (snd y)"
  have step: "nearest_loop state ts PosInf None =
      nearest_loop state rest (Finite (type_distance state td)) (Some name)"
    by (simp add: ts t Let_def)
  from nearest_loop_from_finite [of state rest "type_distance state td" name] show ?thesis
  proof (elim disjE exE conjE)
    assume "nearest_loop state rest (Finite (type_distance state td)) (Some name) =
        (Finite (type_distance state td), Some name)"
      and "\<forall>y \<in> set rest. type_distance state td \<le> ?d y"
    then have "ts = [] @ t # rest \<and>
        nearest_loop state ts PosInf None = (Finite (?d t), Some (fst t)) \<and>
        (\<forall>y \<in> set []. ?d t < ?d y) \<and> (\<forall>y \<in> set rest. ?d t \<le> ?d y)"
      using step by (simp add: ts t)
    then show ?thesis
      by blast
  next
    fix pre x post
    assume "rest = pre @ x # post"
      and "nearest_loop state rest (Finite (type_distance state td)) (Some name) =
        (Finite (?d x), Some (fst x))"
      and "?d x < type_distance state td"
      and "\<forall>y \<in> set pre. ?d x < ?d y"
      and "\<forall>y \<in> set post. ?d x \<le> ?d y"
    then have "ts = (t # pre) @ x # post \<and>
        nearest_loop state ts PosInf None = (Finite (?d x), Some (fst x)) \<and>
        (\<forall>y \<in> set (t # pre). ?d x < ?d y) \<and> (\<forall>y \<in> set post. ?d x \<le> ?d y)"
      using step by (simp add: ts t)
    then show ?thesis
      by blast
  qed
qed

lemma visual_types_distinct: "distinct (map fst DISPLAY_VISUAL_TYPES)"
  by (simp add: DISPLAY_VISUAL_TYPES_def)

lemma visual_types_nonempty: "DISPLAY_VISUAL_TYPES \<noteq> []"
  by (simp add: DISPLAY_VISUAL_TYPES_def)

lemma slice_to_take: "0 \<le> k \<Longrightarrow> slice_to xs k = take (nat k) xs"
  by (simp add: slice_to_def slice_bound_def Let_def min_def)

lemma vocabulary_result:
  "\<exists>pre name type_def post.
     DISPLAY_VISUAL_TYPES = pre @ (name, type_def) # post \<and>
     (\<forall>y \<in> set pre. type_distance state type_def < type_distance state (snd y)) \<and>
     (\<forall>y \<in> set post. type_distance state type_def \<le> type_distance state (snd y)) \<and>
     nearest_loop state DISPLAY_VISUAL_TYPES PosInf None =
       (Finite (type_distance state type_def), Some name) \<and>
     map_of DISPLAY_VISUAL_TYPES name = Some type_def \<and>
     extract_visual_vocabulary state strength =
       Inr \<lparr>vocab_nearest_type = name,
            vocab_distance = Finite (py_round (type_distance state type_def) 4),
            vocab_keywords =
              (if strength < 0.2 then take 3 (type_keywords type_def)
               else if strength < 0.5 then take 5 (type_keywords type_def)
               else type_keywords type_def),
            vocab_strength = strength, vocab_state = state\<rparr>"
proof -
  obtain pre x post where dec: "DISPLAY_VISUAL_TYPES = pre @ x # post"
    and loop: "nearest_loop state DISPLAY_VISUAL_TYPES PosInf None =
      (Finite (type_distance state (snd x)), Some (fst x))"
    and before: "\<forall>y \<in> set pre. type_distance state (snd x) < type_distance state (snd y)"
    and after: "\<forall>y \<in> set post. type_distance state (snd x) \<le> type_distance state (snd y)"
    using nearest_loop_first_min [OF visual_types_nonempty, of state] by blast
  obtain name type_def where x: "x = (name, type_def)"
    by (cases x)
  have "(name, type_def) \<in> set DISPLAY_VISUAL_TYPES"
    unfolding dec x by simp
  then have look: "map_of DISPLAY_VISUAL_TYPES name = Some type_def"
    using visual_types_distinct by (rule map_of_is_SomeI [rotated])
  have "extract_visual_vocabulary state strength =
       Inr \<lparr>vocab_nearest_type = name,
            vocab_distance = Finite (py_round (type_distance state type_def) 4),
            vocab_keywords =
              (if strength < 0.2 then take 3 (type_keywords type_def)
               else if strength < 0.5 then take 5 (type_keywords type_def)
               else type_keywords type_def),
            vocab_strength = strength, vocab_state = state\<rparr>"
    unfolding extract_visual_vocabulary_def loop x
    by (simp add: look getitem_Some slice_to_take)
  then show ?thesis
    using dec loop before after look unfolding x by (metis fst_conv snd_conv)
qed

section \<open>Keyframe sampling\<close>

lemma extract_visual_vocabulary_total:
  "\<exists>vocab. extract_visual_vocabulary state strength = Inr vocab \<and> vocab_state vocab = state"
  using vocabulary_result [of state strength] by auto

lemma keyframe_loop_in_range:
  assumes "\<forall>idx \<in> set indices. 0 \<le> idx \<and> idx < int (length trajectory)"
  shows "keyframe_loop trajectory style_modifier indices acc =
    Inr (acc @ map (keyframe_at trajectory style_modifier) indices)"
  using assms
proof (induction indices arbitrary: acc)
  case Nil
  show ?case by simp
next
  case (Cons idx indices)
  then have g: "list_getitem trajectory idx = Inr (trajectory ! nat idx)"
    by (simp add: list_getitem_def)
  obtain vocab where v: "extract_visual_vocabulary (trajectory ! nat idx) 1.0 = Inr vocab"
    using extract_visual_vocabulary_total by blast
  from Cons.prems have rest: "\<forall>idx \<in> set indices. 0 \<le> idx \<and> idx < int (length trajectory)"
    by simp
  show ?case
    using v by (simp add: g Cons.IH [OF rest] keyframe_at_def)
qed

lemma py_range_set: "set (py_range n) = {0..<n}"
  by (auto simp add: py_range_def)

lemma keyframe_indices_positive:
  assumes "0 < keyframe_count"
  shows "keyframe_indices L keyframe_count =
    Inr (map (\<lambda>i. min (i * max 1 (L div keyframe_count)) (L - 1)) (py_range keyframe_count))"
  using assms by (simp add: keyframe_indices_def Let_def)

lemma py_range_4: "py_range 4 = [0, 1, 2, 3]"
  by (simp add: py_range_def upto.simps)

lemma keyframe_indices_24_4: "keyframe_indices 24 4 = Inr [0, 6, 12, 18]"
  by (simp add: keyframe_indices_def py_range_4)

lemma keyframe_index_in_range:
  fixes L i kc :: int
  assumes "1 \<le> L" and "0 \<le> i"
  shows "0 \<le> min (i * max 1 (L div kc)) (L - 1) \<and> min (i * max 1 (L div kc)) (L - 1) < L"
proof -
  have "0 \<le> max 1 (L div kc)"
    by simp
  with assms(2) have "0 \<le> i * max 1 (L div kc)"
    by (rule mult_nonneg_nonneg)
  then show ?thesis
    using assms(1) by simp
qed

text \<open>
  Claim C5. For a trajectory of length \<open>L \<ge> 1\<close> and a positive \<open>keyframe_count\<close>,
  sampling succeeds and returns \<open>keyframe_count\<close> keyframes whose steps are the indices
  \<open>min (i * step_size) (L - 1)\<close> for \<open>i = 0, ..., keyframe_count - 1\<close>, with
  \<open>step_size = max 1 (L div keyframe_count)\<close>; every index lies inside the trajectory and
  each keyframe holds the trajectory point at its index, in order. When \<open>keyframe_count\<close>
  exceeds \<open>L\<close> the indices from position \<open>L - 1\<close> on all equal \<open>L - 1\<close>: they repeat and
  nothing fails. For 24 points and 4 keyframes the indices are 0, 6, 12, 18.
\<close>

theorem keyframe_sampling:
  assumes "1 \<le> length trajectory" and "0 < keyframe_count"
  shows "\<exists>keyframes.
    sample_keyframes trajectory style_modifier keyframe_count = Inr keyframes \<and>
    keyframe_indices (int (length trajectory)) keyframe_count = Inr (map kf_step keyframes) \<and>
    map kf_step keyframes =
      map (\<lambda>i. min (i * max 1 (int (length trajectory) div keyframe_count))
                   (int (length trajectory) - 1))
          (py_range keyframe_count) \<and>
    int (length keyframes) = keyframe_count \<and>
    (\<forall>k < length keyframes.
       0 \<le> kf_step (keyframes ! k) \<and> kf_step (keyframes ! k) < int (length trajectory) \<and>
       kf_state (keyframes ! k) = trajectory ! nat (kf_step (keyframes ! k))) \<and>
    (int (length trajectory) < keyframe_count \<longrightarrow>
       (\<forall>k < length keyframes. length trajectory - 1 \<le> k \<longrightarrow>
          kf_step (keyframes ! k) = int (length trajectory) - 1)) \<and>
    keyframe_indices 24 4 = Inr [0, 6, 12, 18]"
proof -
  let ?L = "int (length trajectory)"
  let ?idx = "\<lambda>i. min (i * max 1 (?L div keyframe_count)) (?L - 1)"
  let ?indices = "map ?idx (py_range keyframe_count)"
  let ?kfs = "map (keyframe_at trajectory style_modifier) ?indices"
  have L: "1 \<le> ?L"
    using assms(1) by simp
  have ind: "keyframe_indices ?L keyframe_count = Inr ?indices"
    by (rule keyframe_indices_positive [OF assms(2)])
  have range: "\<forall>idx \<in> set ?indices. 0 \<le> idx \<and> idx < ?L"
    using keyframe_index_in_range [OF L] by (auto simp add: py_range_set)
  have sample: "sample_keyframes trajectory style_modifier keyframe_count = Inr ?kfs"
    by (simp add: sample_keyframes_def Let_def ind keyframe_loop_in_range [OF range])
  have steps: "map kf_step ?kfs = ?indices"
    by (simp add: keyframe_at_def Let_def o_def)
  have len: "int (length ?kfs) = keyframe_count"
    using assms(2) by (simp add: length_py_range)
  have nth: "kf_step (?kfs ! k) = ?idx (int k) \<and> kf_state (?kfs ! k) = trajectory ! nat (?idx (int k))"
    if "k < length ?kfs" for k
    using that by (simp add: keyframe_at_def Let_def length_py_range py_range_nth)
  have points: "\<forall>k < length ?kfs.
       0 \<le> kf_step (?kfs ! k) \<and> kf_step (?kfs ! k) < ?L \<and>
       kf_state (?kfs ! k) = trajectory ! nat (kf_step (?kfs ! k))"
  proof (intro allI impI)
    fix k
    assume k: "k < length ?kfs"
    have a: "kf_step (?kfs ! k) = ?idx (int k)"
      and b: "kf_state (?kfs ! k) = trajectory ! nat (?idx (int k))"
      using nth [OF k] by blast+
    have c: "0 \<le> ?idx (int k) \<and> ?idx (int k) < ?L"
      by (rule keyframe_index_in_range [OF L]) simp
    show "0 \<le> kf_step (?kfs ! k) \<and> kf_step (?kfs ! k) < ?L \<and>
       kf_state (?kfs ! k) = trajectory ! nat (kf_step (?kfs ! k))"
      unfolding a using b c by blast
  qed
  have clamp: "\<forall>k < length ?kfs. length trajectory - 1 \<le> k \<longrightarrow> kf_step (?kfs ! k) = ?L - 1"
    if "?L < keyframe_count"
  proof (intro allI impI)
    fix k
    assume k: "k < length ?kfs" and big: "length trajectory - 1 \<le> k"
    have "?L div keyframe_count = 0"
      using that by (simp add: div_pos_pos_trivial)
    then have "?idx (int k) = min (int k) (?L - 1)"
      by simp
    also have "\<dots> = ?L - 1"
      using big by linarith
    finally show "kf_step (?kfs ! k) = ?L - 1"
      using nth [OF k] by simp
  qed
  show ?thesis
    apply (rule exI [of _ ?kfs])
    apply (intro conjI)
          apply (rule sample)
         apply (simp only: steps ind)
        apply (rule steps)
       apply (rule len)
      apply (rule points)
     apply (rule impI, erule clamp)
    apply (rule keyframe_indices_24_4)
    done
qed

theorem keyframe_sampling_witness:
  "(\<exists>keyframes. sample_keyframes (replicate 24 Map.empty) [] 4 = Inr keyframes \<and>
      map kf_step keyframes = [0, 6, 12, 18]) \<and>
   (\<exists>keyframes. sample_keyframes [Map.empty, Map.empty] [] 4 = Inr keyframes \<and>
      map kf_step keyframes = [0, 1, 1, 1] \<and> kf_step (keyframes ! 3) = 1 \<and>
      kf_state (keyframes ! 3) = Map.empty)"
proof
  have "1 \<le> length (replicate 24 (Map.empty :: coords))" and "(0 :: int) < 4"
    by simp_all
  from keyframe_sampling [OF this, of "[]"]
  obtain keyframes where "sample_keyframes (replicate 24 Map.empty) [] 4 = Inr keyframes"
    and "map kf_step keyframes =
      map (\<lambda>i. min (i * max 1 (int (length (replicate 24 (Map.empty :: coords))) div 4))
                   (int (length (replicate 24 (Map.empty :: coords))) - 1))
          (py_range 4)"
    by blast
  then show "\<exists>keyframes. sample_keyframes (replicate 24 Map.empty) [] 4 = Inr keyframes \<and>
      map kf_step keyframes = [0, 6, 12, 18]"
    by (simp add: py_range_4)
next
  have "1 \<le> length [Map.empty, Map.empty :: coords]" and "(0 :: int) < 4"
    by simp_all
  from keyframe_sampling [OF this, of "[]"]
  obtain keyframes where s: "sample_keyframes [Map.empty, Map.empty] [] 4 = Inr keyframes"
    and m: "map kf_step keyframes =
      map (\<lambda>i. min (i * max 1 (int (length [Map.empty, Map.empty :: coords]) div 4))
                   (int (length [Map.empty, Map.empty :: coords]) - 1))
          (py_range 4)"
    and l: "int (length keyframes) = 4"
    and p: "\<forall>k < length keyframes.
       0 \<le> kf_step (keyframes ! k) \<and>
       kf_step (keyframes ! k) < int (length [Map.empty, Map.empty :: coords]) \<and>
       kf_state (keyframes ! k) = [Map.empty, Map.empty] ! nat (kf_step (keyframes ! k))"
    by blast
  from m have steps: "map kf_step keyframes = [0, 1, 1, 1]"
    by (simp add: py_range_4)
  from l have three: "3 < length keyframes"
    by simp
  from steps have "map kf_step keyframes ! 3 = [0, 1, 1, 1 :: int] ! 3"
    by (rule arg_cong)
  with three have k3: "kf_step (keyframes ! 3) = 1"
    by simp
  from p three have "kf_state (keyframes ! 3) = [Map.empty, Map.empty] ! nat (kf_step (keyframes ! 3))"
    by simp
  then have k3s: "kf_state (keyframes ! 3) = Map.empty"
    by (simp add: k3)
  show "\<exists>keyframes. sample_keyframes [Map.empty, Map.empty] [] 4 = Inr keyframes \<and>
      map kf_step keyframes = [0, 1, 1, 1] \<and> kf_step (keyframes ! 3) = 1 \<and>
      kf_state (keyframes ! 3) = Map.empty"
    by (rule exI [of _ keyframes]) (intro conjI s steps k3 k3s)
qed

section \<open>Symmetry of the distance calculator\<close>

lemma distance_loop_complete:
  assumes "set ps \<subseteq> dom A" and "set ps \<subseteq> dom B"
  shows "distance_loop A B ps components total_sq =
    Inr (\<lambda>q. if q \<in> set ps then Some (py_round (the (B q) - the (A q)) 4) else components q,
         total_sq + (\<Sum>p \<leftarrow> ps. (the (B p) - the (A p)) ^ 2))"
  using assms
proof (induction ps arbitrary: components total_sq)
  case Nil
  show ?case by simp
next
  case (Cons p ps)
  then have a: "getitem A p = Inr (the (A p))" and b: "getitem B p = Inr (the (B p))"
    by (simp_all add: getitem_dom)
  from Cons.prems have sub: "set ps \<subseteq> dom A" "set ps \<subseteq> dom B"
    by simp_all
  show ?case
    by (simp add: a b Cons.IH [OF sub] Let_def add.assoc) (rule ext, simp)
qed

lemma state_distance_registered:
  assumes "map_of DISPLAY_STATE_COORDINATES a = Some A"
    and "map_of DISPLAY_STATE_COORDINATES b = Some B"
  shows "compute_display_state_distance a b =
    Inr \<lparr>dist_state_a = a, dist_state_b = b,
         dist_euclidean_distance =
           py_round (sqrt (\<Sum>p \<leftarrow> DISPLAY_PARAMETER_NAMES. (the (B p) - the (A p)) ^ 2)) 4,
         dist_parameter_differences =
           (\<lambda>q. if q \<in> set DISPLAY_PARAMETER_NAMES
                then Some (py_round (the (B q) - the (A q)) 4) else None)\<rparr>"
proof -
  have dA: "set DISPLAY_PARAMETER_NAMES \<subseteq> dom A" and dB: "set DISPLAY_PARAMETER_NAMES \<subseteq> dom B"
    using registered_dom assms by simp_all
  show ?thesis
    unfolding compute_display_state_distance_def
    by (simp add: assms getitem_Some distance_loop_complete [OF dA dB])
qed

text \<open>
  Claim C7. For two registered states \<open>A\<close> and \<open>B\<close> the distance calculator succeeds in
  both orders and on \<open>(A, A)\<close>; the Euclidean distance of \<open>(A, B)\<close> equals that of
  \<open>(B, A)\<close>, the distance of \<open>(A, A)\<close> is 0, and the difference reported for each of
  the five axes is the second state's value minus the first's, rounded to 4 decimals.
\<close>

theorem distance_symmetric:
  assumes "map_of DISPLAY_STATE_COORDINATES a = Some A"
    and "map_of DISPLAY_STATE_COORDINATES b = Some B"
  shows "\<exists>ab ba aa.
    compute_display_state_distance a b = Inr ab \<and>
    compute_display_state_distance b a = Inr ba \<and>
    compute_display_state_distance a a = Inr aa \<and>
    dist_euclidean_distance ab = dist_euclidean_distance ba \<and>
    dist_euclidean_distance aa = 0 \<and>
    dom (dist_parameter_differences ab) = set DISPLAY_PARAMETER_NAMES \<and>
    (\<forall>axis \<in> set DISPLAY_PARAMETER_NAMES.
       dist_parameter_differences ab axis = Some (py_round (the (B axis) - the (A axis)) 4))"
proof -
  have sym: "(\<Sum>p \<leftarrow> ps. (the (B p) - the (A p)) ^ 2) = (\<Sum>p \<leftarrow> ps. (the (A p) - the (B p)) ^ 2)"
    for ps
    by (simp add: power2_commute)
  have r0: "py_round 0 4 = 0"
    by (simp add: py_round_def round_half_even_def)
  have d: "dom (\<lambda>q. if q \<in> set DISPLAY_PARAMETER_NAMES
                then Some (py_round (the (B q) - the (A q)) 4) else None) =
      set DISPLAY_PARAMETER_NAMES"
    by (auto split: if_splits)
  show ?thesis
    unfolding state_distance_registered [OF assms(1,2)] state_distance_registered [OF assms(2,1)]
      state_distance_registered [OF assms(1,1)]
    by (simp add: sym r0 d)
qed

theorem distance_symmetric_witness:
  "\<exists>ab ba aa.
    compute_display_state_distance ''luxury_isolation'' ''theatrical_drama'' = Inr ab \<and>
    compute_display_state_distance ''theatrical_drama'' ''luxury_isolation'' = Inr ba \<and>
    compute_display_state_distance ''luxury_isolation'' ''luxury_isolation'' = Inr aa \<and>
    dist_euclidean_distance ab = dist_euclidean_distance ba \<and>
    dist_euclidean_distance aa = 0 \<and>
    dist_parameter_differences ab ''compositional_tension'' = Some 0.45 \<and>
    dist_parameter_differences ba ''compositional_tension'' = Some (- 0.45)"
proof -
  let ?A = "[''compositional_tension'' \<mapsto> 0.10, ''depth_complexity'' \<mapsto> 0.40,
       ''lighting_drama'' \<mapsto> 0.35, ''viewing_intimacy'' \<mapsto> 0.85,
       ''negative_space_ratio'' \<mapsto> 0.90 :: real]"
  let ?B = "[''compositional_tension'' \<mapsto> 0.55, ''depth_complexity'' \<mapsto> 0.85,
       ''lighting_drama'' \<mapsto> 0.90, ''viewing_intimacy'' \<mapsto> 0.50,
       ''negative_space_ratio'' \<mapsto> 0.40 :: real]"
  have a: "map_of DISPLAY_STATE_COORDINATES ''luxury_isolation'' = Some ?A"
    by (simp add: DISPLAY_STATE_COORDINATES_def)
  have b: "map_of DISPLAY_STATE_COORDINATES ''theatrical_drama'' = Some ?B"
    by (simp add: DISPLAY_STATE_COORDINATES_def)
  have ct: "''compositional_tension'' \<in> set DISPLAY_PARAMETER_NAMES"
    by (simp add: DISPLAY_PARAMETER_NAMES_def)
  have r: "py_round (9 / 20) 4 = 9 / 20" and r': "py_round (- (9 / 20)) 4 = - (9 / 20)"
    by (simp_all add: py_round_def round_half_even_def)
  obtain ab ba aa where h:
    "compute_display_state_distance ''luxury_isolation'' ''theatrical_drama'' = Inr ab"
    "compute_display_state_distance ''theatrical_drama'' ''luxury_isolation'' = Inr ba"
    "compute_display_state_distance ''luxury_isolation'' ''luxury_isolation'' = Inr aa"
    "dist_euclidean_distance ab = dist_euclidean_distance ba"
    "dist_euclidean_distance aa = 0"
    and d: "\<forall>axis \<in> set DISPLAY_PARAMETER_NAMES.
       dist_parameter_differences ab axis = Some (py_round (the (?B axis) - the (?A axis)) 4)"
    using distance_symmetric [OF a b] by blast
  obtain ba' where h': "compute_display_state_distance ''theatrical_drama'' ''luxury_isolation'' = Inr ba'"
    and d': "\<forall>axis \<in> set DISPLAY_PARAMETER_NAMES.
       dist_parameter_differences ba' axis = Some (py_round (the (?A axis) - the (?B axis)) 4)"
    using distance_symmetric [OF b a] by blast
  from h(2) h' have same: "ba' = ba"
    by simp
  from d ct have x: "dist_parameter_differences ab ''compositional_tension'' = Some 0.45"
    by (simp add: r)
  from d' ct have y: "dist_parameter_differences ba ''compositional_tension'' = Some (- 0.45)"
    unfolding same by (simp add: r')
  show ?thesis
    by (intro exI [of _ ab] exI [of _ ba] exI [of _ aa] conjI h x y)
qed

end
